theory Spec2Isabelle
  imports Complex_Main "HOL-Library.Monad_Syntax" "HOL-Library.Sublist"
begin

section \<open>JSON values and the JavaScript operations the handlers use\<close>

text \<open>
  The handlers of \<^verbatim>\<open>src/index.ts\<close> work on loosely typed JSON. A value is one of
  the JSON forms, or \<open>JUndefined\<close>, which JSON text never holds but which every missing
  property reads as. An object is the list of its own properties in insertion order, each
  key once.
  The numbers inside the upstream JSON are only copied, tested for truthiness and printed
  into a URL by the handlers, so the model keeps the integers among them; strings are ASCII.

  A thrown exception (a rejected promise) is the value \<open>None\<close>.
\<close>

datatype json =
    JUndefined
  | JNull
  | JBool bool
  | JNum int
  | JStr string
  | JArr "json list"
  | JObj "(string \<times> json) list"

fun nullish :: "json \<Rightarrow> bool" where
  "nullish JUndefined = True"
| "nullish JNull = True"
| "nullish _ = False"

fun truthy :: "json \<Rightarrow> bool" where
  "truthy JUndefined = False"
| "truthy JNull = False"
| "truthy (JBool b) = b"
| "truthy (JNum n) = (n \<noteq> 0)"
| "truthy (JStr s) = (s \<noteq> [])"
| "truthy (JArr xs) = True"
| "truthy (JObj fs) = True"

text \<open>\<open>a || b\<close> where \<open>b\<close> is a literal.\<close>

definition js_or :: "json \<Rightarrow> json \<Rightarrow> json" where
  "js_or a b = (if truthy a then a else b)"

text \<open>
  \<open>read_prop x p\<close> is what \<open>x.p\<close> reads when \<open>x\<close> is neither \<open>null\<close> nor
  \<open>undefined\<close>, for the property names of the source (none of them is a name of a
  prototype, and \<open>length\<close> is the only one that arrays and strings have).
\<close>

fun read_prop :: "json \<Rightarrow> string \<Rightarrow> json" where
  "read_prop (JObj fs) p = (case map_of fs p of None \<Rightarrow> JUndefined | Some v \<Rightarrow> v)"
| "read_prop (JArr xs) p = (if p = ''length'' then JNum (int (length xs)) else JUndefined)"
| "read_prop (JStr s) p = (if p = ''length'' then JNum (int (length s)) else JUndefined)"
| "read_prop _ p = JUndefined"

text \<open>\<open>x.p\<close>: a TypeError on \<open>null\<close> and \<open>undefined\<close>.\<close>

definition get :: "json \<Rightarrow> string \<Rightarrow> json option" where
  "get x p = (if nullish x then None else Some (read_prop x p))"

text \<open>\<open>x?.p\<close>: never throws on JSON data.\<close>

definition opt_get :: "json \<Rightarrow> string \<Rightarrow> json" where
  "opt_get x p = (if nullish x then JUndefined else read_prop x p)"

fun show_nat :: "nat \<Rightarrow> string" where
  "show_nat n =
     (if n < 10 then [char_of (48 + n)]
      else show_nat (n div 10) @ [char_of (48 + n mod 10)])"

definition show_int :: "int \<Rightarrow> string" where
  "show_int i = (if i < 0 then CHR ''-'' # show_nat (nat (- i)) else show_nat (nat i))"

text \<open>\<open>x[i]\<close> for an index literal \<open>i\<close>, on a value that is not nullish.\<close>

fun elem :: "json \<Rightarrow> nat \<Rightarrow> json" where
  "elem (JArr xs) i = (if i < length xs then xs ! i else JUndefined)"
| "elem (JStr s) i = (if i < length s then JStr [s ! i] else JUndefined)"
| "elem (JObj fs) i = (case map_of fs (show_nat i) of None \<Rightarrow> JUndefined | Some v \<Rightarrow> v)"
| "elem _ i = JUndefined"

text \<open>\<open>x?.[i]\<close>.\<close>

definition opt_index :: "json \<Rightarrow> nat \<Rightarrow> json" where
  "opt_index x i = (if nullish x then JUndefined else elem x i)"

text \<open>
  The bounds of \<open>slice\<close> are numbers: any finite number, that is a rational, fractions
  and negative values included. \<open>slice\<close> first turns a bound into an integer by cutting
  off its fraction (\<open>2.5\<close> becomes \<open>2\<close>, \<open>-0.5\<close> becomes \<open>0\<close>).
\<close>

definition to_integer :: "rat \<Rightarrow> int" where
  "to_integer q = (if q < 0 then - \<lfloor>- q\<rfloor> else \<lfloor>q\<rfloor>)"

text \<open>
  \<open>Array.prototype.slice(start, end)\<close> and \<open>String.prototype.slice\<close>: a bound that is
  negative after truncation counts from the end, and both bounds are clamped to the length.
\<close>

definition js_slice :: "'a list \<Rightarrow> rat \<Rightarrow> rat \<Rightarrow> 'a list" where
  "js_slice xs s e =
     (let len = int (length xs);
          relativeStart = to_integer s;
          relativeEnd = to_integer e;
          k = (if relativeStart < 0 then max (len + relativeStart) 0 else min relativeStart len);
          final = (if relativeEnd < 0 then max (len + relativeEnd) 0 else min relativeEnd len)
      in take (nat (final - k)) (drop (nat k) xs))"

text \<open>
  \<open>x.slice(s, e)\<close>: arrays and strings have the method; on every other value the
  property is not a function and the call throws.
\<close>

fun call_slice :: "json \<Rightarrow> rat \<Rightarrow> rat \<Rightarrow> json option" where
  "call_slice (JArr xs) s e = Some (JArr (js_slice xs s e))"
| "call_slice (JStr str) s e = Some (JStr (js_slice str s e))"
| "call_slice _ s e = None"

text \<open>
  \<open>xs.map((c, i) => f)\<close>: the callback runs on the elements in order with their
  index; the first callback that throws ends the call.
\<close>

fun map_js :: "(json \<Rightarrow> nat \<Rightarrow> json option) \<Rightarrow> json list \<Rightarrow> nat \<Rightarrow> json list option" where
  "map_js f [] i = Some []"
| "map_js f (c # cs) i = do {
     y \<leftarrow> f c i;
     ys \<leftarrow> map_js f cs (Suc i);
     Some (y # ys)
   }"

fun call_map :: "(json \<Rightarrow> nat \<Rightarrow> json option) \<Rightarrow> json \<Rightarrow> json option" where
  "call_map f (JArr xs) = map_option JArr (map_js f xs 0)"
| "call_map f _ = None"

text \<open>
  \<open>xs.find(c => p)\<close>: the first element whose test is true, \<open>undefined\<close> when there
  is none; elements after the hit are not tested.
\<close>

fun find_js :: "(json \<Rightarrow> bool option) \<Rightarrow> json list \<Rightarrow> json option" where
  "find_js p [] = Some JUndefined"
| "find_js p (c # cs) = do {
     b \<leftarrow> p c;
     if b then Some c else find_js p cs
   }"

fun call_find :: "(json \<Rightarrow> bool option) \<Rightarrow> json \<Rightarrow> json option" where
  "call_find p (JArr xs) = find_js p xs"
| "call_find p _ = None"

text \<open>\<open>x === s\<close> for a string \<open>s\<close>.\<close>

definition strict_eq_str :: "json \<Rightarrow> string \<Rightarrow> bool" where
  "strict_eq_str x s = (x = JStr s)"

subsection \<open>Strings\<close>

text \<open>
  \<open>s.split(sep)\<close> for a separator that is not empty: the pieces between the
  occurrences of \<open>sep\<close>, found from the left without overlap.
\<close>

fun split_str :: "string \<Rightarrow> string \<Rightarrow> string \<Rightarrow> string list" where
  "split_str sep acc [] = [rev acc]"
| "split_str sep acc (c # cs) =
     (if sep \<noteq> [] \<and> prefix sep (c # cs)
      then rev acc # split_str sep [] (drop (length sep) (c # cs))
      else split_str sep (c # acc) cs)"

definition split_js :: "string \<Rightarrow> string \<Rightarrow> string list" where
  "split_js s sep = (if sep = [] then map (\<lambda>c. [c]) s else split_str sep [] s)"

fun call_split :: "json \<Rightarrow> string \<Rightarrow> json option" where
  "call_split (JStr s) sep = Some (JArr (map JStr (split_js s sep)))"
| "call_split _ sep = None"

text \<open>\<open>s.includes(sub)\<close> on a string.\<close>

fun includes_str :: "string \<Rightarrow> string \<Rightarrow> bool" where
  "includes_str sub [] = (sub = [])"
| "includes_str sub (c # cs) = (prefix sub (c # cs) \<or> includes_str sub cs)"

text \<open>
  \<open>x.includes(s)\<close>: strings search for a substring, arrays for an element that is
  strictly equal; no other JSON value has the method.
\<close>

fun call_includes :: "json \<Rightarrow> string \<Rightarrow> bool option" where
  "call_includes (JStr s) sub = Some (includes_str sub s)"
| "call_includes (JArr xs) sub = Some (JStr sub \<in> set xs)"
| "call_includes _ sub = None"

text \<open>\<open>s.replace(pat, rep)\<close> with string arguments replaces the first occurrence.\<close>

fun replace_first :: "string \<Rightarrow> string \<Rightarrow> string \<Rightarrow> string" where
  "replace_first pat rep [] = (if pat = [] then rep else [])"
| "replace_first pat rep (c # cs) =
     (if prefix pat (c # cs) then rep @ drop (length pat) (c # cs)
      else c # replace_first pat rep cs)"

fun call_replace :: "json \<Rightarrow> string \<Rightarrow> string \<Rightarrow> json option" where
  "call_replace (JStr s) pat rep = Some (JStr (replace_first pat rep s))"
| "call_replace _ pat rep = None"

text \<open>\<open>s.toUpperCase()\<close> on ASCII text: the letters a to z change, nothing else does.\<close>

definition upper_char :: "char \<Rightarrow> char" where
  "upper_char c =
     (case map_of (zip ''abcdefghijklmnopqrstuvwxyz'' ''ABCDEFGHIJKLMNOPQRSTUVWXYZ'') c of
        None \<Rightarrow> c
      | Some u \<Rightarrow> u)"

fun call_toUpperCase :: "json \<Rightarrow> json option" where
  "call_toUpperCase (JStr s) = Some (JStr (map upper_char s))"
| "call_toUpperCase _ = None"

text \<open>
  The string a template literal makes of a value (\<open>${event.id}\<close>): inside an array,
  \<open>null\<close> and \<open>undefined\<close> print as the empty string. A number prints in decimal,
  as JavaScript prints the integers below \<open>1e21\<close> (beyond, it uses the exponent form).
\<close>

fun join_str :: "string \<Rightarrow> string list \<Rightarrow> string" where
  "join_str sep [] = []"
| "join_str sep [s] = s"
| "join_str sep (s # t # ss) = s @ sep @ join_str sep (t # ss)"

fun to_string :: "json \<Rightarrow> string" where
  "to_string JUndefined = ''undefined''"
| "to_string JNull = ''null''"
| "to_string (JBool b) = (if b then ''true'' else ''false'')"
| "to_string (JNum n) = show_int n"
| "to_string (JStr s) = s"
| "to_string (JArr xs) = join_str '','' (map (\<lambda>x. if nullish x then [] else to_string x) xs)"
| "to_string (JObj fs) = ''[object Object]''"

section \<open>The upstream client\<close>

text \<open>
  \<open>fetchJSON\<close> of the source: \<open>fetch\<close> may reject (no response), a response whose
  \<open>ok\<close> flag is false makes the function throw, and \<open>response.json()\<close> rejects
  when the body is not JSON (\<open>body = None\<close>).
\<close>

record response =
  ok :: bool
  status :: nat
  body :: "json option"

type_synonym upstream = "string \<Rightarrow> response option"

definition fetchJSON :: "upstream \<Rightarrow> string \<Rightarrow> json option" where
  "fetchJSON up url =
     (case up url of
        None \<Rightarrow> None
      | Some r \<Rightarrow> if \<not> ok r then None else body r)"

definition ESPN_BASE :: string where
  "ESPN_BASE = ''https://site.api.espn.com/apis/site/v2/sports/golf''"

section \<open>Handlers\<close>

text \<open>
  Every handler takes the upstream and \<open>now\<close>, the string that
  \<open>new Date().toISOString()\<close> gives when the response is built, and returns the
  \<open>output\<close> object of its envelope.
\<close>

subsection \<open>overview\<close>

definition overview_entry :: "json \<Rightarrow> nat \<Rightarrow> json option" where
  "overview_entry c i = do {
     name \<leftarrow> get c ''displayName'';
     score \<leftarrow> get c ''score'';
     shortName \<leftarrow> get c ''shortName'';
     first \<leftarrow> (if nullish shortName then Some JUndefined
               else do { parts \<leftarrow> call_split shortName ''.''; Some (elem parts 0) });
     Some (JObj [(''position'', JNum (int i + 1)),
                 (''name'', name),
                 (''score'', score),
                 (''country'', js_or first (JStr ''N/A''))])
   }"

definition overview :: "upstream \<Rightarrow> string \<Rightarrow> json option" where
  "overview up now = do {
     data \<leftarrow> fetchJSON up (ESPN_BASE @ ''/pga/events'');
     events \<leftarrow> get data ''events'';
     let event = opt_index events 0;
     if \<not> truthy event
     then Some (JObj [(''message'', JStr ''No active tournament''), (''fetchedAt'', JStr now)])
     else do {
       cs \<leftarrow> get event ''competitors'';
       sliced \<leftarrow> (if nullish cs then Some JUndefined else call_slice cs 0 10);
       let competitors = js_or sliced (JArr []);
       tournament \<leftarrow> get event ''name'';
       fullStatus \<leftarrow> get event ''fullStatus'';
       let status = js_or (opt_get (opt_get fullStatus ''type'') ''description'') (JStr ''Unknown'');
       fullStatus2 \<leftarrow> get event ''fullStatus'';
       let round = js_or (opt_get fullStatus2 ''displayPeriod'') (JStr ''N/A'');
       leaderboard \<leftarrow> call_map overview_entry competitors;
       Some (JObj [(''tournament'', tournament),
                   (''status'', status),
                   (''round'', round),
                   (''leaderboard'', leaderboard),
                   (''fetchedAt'', JStr now),
                   (''dataSource'', JStr ''ESPN Golf API (live)'')])
     }
   }"

text \<open>
  The input schemas declare every \<open>limit\<close> as \<open>z.number().optional().default(d)\<close>:
  any number is accepted, not only the integers and not only the positive ones, and a
  request without the field reaches the handler with the default in its place.
\<close>

definition limit_input :: "rat \<Rightarrow> rat option \<Rightarrow> rat" where
  "limit_input dflt v = (case v of None \<Rightarrow> dflt | Some n \<Rightarrow> n)"

subsection \<open>pga-leaderboard\<close>

definition pga_entry :: "json \<Rightarrow> nat \<Rightarrow> json option" where
  "pga_entry c i = do {
     playerId \<leftarrow> get c ''id'';
     athlete \<leftarrow> get c ''athlete'';
     name \<leftarrow> (if truthy (opt_get athlete ''displayName'')
              then Some (opt_get athlete ''displayName'')
              else get c ''displayName'');
     score \<leftarrow> get c ''score'';
     athlete2 \<leftarrow> get c ''athlete'';
     let country = js_or (opt_get (opt_get athlete2 ''flag'') ''alt'') (JStr ''Unknown'');
     status \<leftarrow> get c ''status'';
     let thru = js_or (opt_get status ''thru'') (JStr ''F'');
     Some (JObj [(''position'', JNum (int i + 1)),
                 (''playerId'', playerId),
                 (''name'', name),
                 (''score'', score),
                 (''country'', country),
                 (''thru'', thru)])
   }"

text \<open>\<open>scoreboard.events?.[0]?.competitions?.[0]?.competitors || []\<close>\<close>

definition scoreboard_competitors :: "json \<Rightarrow> json option" where
  "scoreboard_competitors scoreboard = do {
     events \<leftarrow> get scoreboard ''events'';
     Some (js_or (opt_get (opt_index (opt_get (opt_index events 0) ''competitions'') 0)
                    ''competitors'')
                 (JArr []))
   }"

text \<open>The \<open>tournament\<close> object of the two leaderboard handlers, built from a truthy event.\<close>

definition tournament_info :: "json \<Rightarrow> json option" where
  "tournament_info event = do {
     eid \<leftarrow> get event ''id'';
     name \<leftarrow> get event ''name'';
     fullStatus \<leftarrow> get event ''fullStatus'';
     let status = opt_get (opt_get fullStatus ''type'') ''description'';
     fullStatus2 \<leftarrow> get event ''fullStatus'';
     let round = opt_get fullStatus2 ''displayPeriod'';
     date \<leftarrow> get event ''date'';
     Some (JObj [(''id'', eid),
                 (''name'', name),
                 (''status'', status),
                 (''round'', round),
                 (''date'', date)])
   }"

definition pga_leaderboard :: "upstream \<Rightarrow> string \<Rightarrow> rat option \<Rightarrow> json option" where
  "pga_leaderboard up now input = do {
     let limit = limit_input 50 input;
     eventsData \<leftarrow> fetchJSON up (ESPN_BASE @ ''/pga/events'');
     events \<leftarrow> get eventsData ''events'';
     let event = opt_index events 0;
     if \<not> truthy event
     then Some (JObj [(''error'', JStr ''No active PGA tournament'')])
     else do {
       eid \<leftarrow> get event ''id'';
       scoreboard \<leftarrow> fetchJSON up (ESPN_BASE @ ''/pga/scoreboard?event='' @ to_string eid);
       competitors \<leftarrow> scoreboard_competitors scoreboard;
       tournament \<leftarrow> tournament_info event;
       sliced \<leftarrow> call_slice competitors 0 limit;
       leaderboard \<leftarrow> call_map pga_entry sliced;
       totalPlayers \<leftarrow> get competitors ''length'';
       Some (JObj [(''tournament'', tournament),
                   (''leaderboard'', leaderboard),
                   (''totalPlayers'', totalPlayers),
                   (''fetchedAt'', JStr now)])
     }
   }"

subsection \<open>player-scorecard\<close>

definition hole_entry :: "json \<Rightarrow> nat \<Rightarrow> json option" where
  "hole_entry h i = do {
     hole \<leftarrow> get h ''period'';
     strokes \<leftarrow> get h ''value'';
     scoreType \<leftarrow> get h ''scoreType'';
     Some (JObj [(''hole'', hole),
                 (''strokes'', strokes),
                 (''toPar'', opt_get scoreType ''displayValue'')])
   }"

definition round_entry :: "json \<Rightarrow> nat \<Rightarrow> json option" where
  "round_entry rnd i = do {
     score \<leftarrow> get rnd ''displayValue'';
     linescores \<leftarrow> get rnd ''linescores'';
     mapped \<leftarrow> (if nullish linescores then Some JUndefined else call_map hole_entry linescores);
     Some (JObj [(''round'', JNum (int i + 1)),
                 (''score'', score),
                 (''holes'', js_or mapped (JArr []))])
   }"

definition hint_entry :: "json \<Rightarrow> nat \<Rightarrow> json option" where
  "hint_entry c i = do {
     cid \<leftarrow> get c ''id'';
     athlete \<leftarrow> get c ''athlete'';
     Some (JObj [(''id'', cid), (''name'', opt_get athlete ''displayName'')])
   }"

text \<open>The test of \<open>find\<close>: \<open>c.id === ctx.input.playerId\<close>.\<close>

definition id_matches :: "string \<Rightarrow> json \<Rightarrow> bool option" where
  "id_matches playerId c = do {
     cid \<leftarrow> get c ''id'';
     Some (strict_eq_str cid playerId)
   }"

definition player_scorecard :: "upstream \<Rightarrow> string \<Rightarrow> string \<Rightarrow> json option" where
  "player_scorecard up now playerId = do {
     eventsData \<leftarrow> fetchJSON up (ESPN_BASE @ ''/pga/events'');
     events \<leftarrow> get eventsData ''events'';
     let event = opt_index events 0;
     if \<not> truthy event
     then Some (JObj [(''error'', JStr ''No active tournament'')])
     else do {
       eid \<leftarrow> get event ''id'';
       scoreboard \<leftarrow> fetchJSON up (ESPN_BASE @ ''/pga/scoreboard?event='' @ to_string eid);
       competitors \<leftarrow> scoreboard_competitors scoreboard;
       player \<leftarrow> call_find (id_matches playerId) competitors;
       if \<not> truthy player
       then do {
         sliced \<leftarrow> call_slice competitors 0 10;
         availablePlayers \<leftarrow> call_map hint_entry sliced;
         Some (JObj [(''error'', JStr ''Player not found in current tournament''),
                     (''availablePlayers'', availablePlayers)])
       }
       else do {
         linescores \<leftarrow> get player ''linescores'';
         let rounds = js_or linescores (JArr []);
         tournament \<leftarrow> get event ''name'';
         pid \<leftarrow> get player ''id'';
         athlete \<leftarrow> get player ''athlete'';
         name \<leftarrow> (if truthy (opt_get athlete ''displayName'')
                  then Some (opt_get athlete ''displayName'')
                  else get player ''displayName'');
         athlete2 \<leftarrow> get player ''athlete'';
         let country = js_or (opt_get (opt_get athlete2 ''flag'') ''alt'') (JStr ''Unknown'');
         totalScore \<leftarrow> get player ''score'';
         mapped \<leftarrow> call_map round_entry rounds;
         Some (JObj [(''tournament'', tournament),
                     (''player'', JObj [(''id'', pid),
                                        (''name'', name),
                                        (''country'', country),
                                        (''totalScore'', totalScore)]),
                     (''rounds'', mapped),
                     (''fetchedAt'', JStr now)])
       }
     }
   }"

subsection \<open>pga-schedule\<close>

definition schedule_entry :: "json \<Rightarrow> nat \<Rightarrow> json option" where
  "schedule_entry event i = do {
     eid \<leftarrow> get event ''id'';
     name \<leftarrow> get event ''label'';
     startDate \<leftarrow> get event ''startDate'';
     endDate \<leftarrow> get event ''endDate'';
     Some (JObj [(''id'', eid),
                 (''name'', name),
                 (''startDate'', startDate),
                 (''endDate'', endDate)])
   }"

text \<open>\<open>data.leagues?.[0]?.calendar\<close>, read by this handler and by full-report.\<close>

definition league_calendar :: "json \<Rightarrow> json option" where
  "league_calendar data = do {
     leagues \<leftarrow> get data ''leagues'';
     Some (opt_get (opt_index leagues 0) ''calendar'')
   }"

definition pga_schedule :: "upstream \<Rightarrow> string \<Rightarrow> rat option \<Rightarrow> json option" where
  "pga_schedule up now input = do {
     let limit = limit_input 10 input;
     data \<leftarrow> fetchJSON up (ESPN_BASE @ ''/pga/scoreboard'');
     cal \<leftarrow> league_calendar data;
     let calendar = js_or cal (JArr []);
     sliced \<leftarrow> call_slice calendar 0 limit;
     upcoming \<leftarrow> call_map schedule_entry sliced;
     leagues2 \<leftarrow> get data ''leagues'';
     let season = opt_get (opt_get (opt_index leagues2 0) ''season'') ''displayName'';
     Some (JObj [(''season'', season),
                 (''events'', upcoming),
                 (''fetchedAt'', JStr now)])
   }"

subsection \<open>lpga-leaderboard\<close>

text \<open>
  \<open>c.logo?.includes('/countries/')
     ? c.logo.split('/countries/500/')[1]?.replace('.png', '').toUpperCase() : 'N/A'\<close>
\<close>

definition logo_country :: "json \<Rightarrow> json option" where
  "logo_country c = do {
     logo \<leftarrow> get c ''logo'';
     has \<leftarrow> (if nullish logo then Some False else call_includes logo ''/countries/'');
     if has
     then do {
       logo2 \<leftarrow> get c ''logo'';
       parts \<leftarrow> call_split logo2 ''/countries/500/'';
       let code = elem parts 1;
       if nullish code then Some JUndefined
       else do {
         stripped \<leftarrow> call_replace code ''.png'' [];
         call_toUpperCase stripped
       }
     }
     else Some (JStr ''N/A'')
   }"

definition lpga_entry :: "json \<Rightarrow> nat \<Rightarrow> json option" where
  "lpga_entry c i = do {
     name \<leftarrow> get c ''displayName'';
     score \<leftarrow> get c ''score'';
     country \<leftarrow> logo_country c;
     Some (JObj [(''position'', JNum (int i + 1)),
                 (''name'', name),
                 (''score'', score),
                 (''country'', country)])
   }"

definition lpga_leaderboard :: "upstream \<Rightarrow> string \<Rightarrow> rat option \<Rightarrow> json option" where
  "lpga_leaderboard up now input = do {
     let limit = limit_input 30 input;
     data \<leftarrow> fetchJSON up (ESPN_BASE @ ''/lpga/events'');
     events \<leftarrow> get data ''events'';
     let event = opt_index events 0;
     if \<not> truthy event
     then Some (JObj [(''error'', JStr ''No active LPGA tournament'')])
     else do {
       cs \<leftarrow> get event ''competitors'';
       sliced \<leftarrow> (if nullish cs then Some JUndefined else call_slice cs 0 limit);
       let competitors = js_or sliced (JArr []);
       tournament \<leftarrow> tournament_info event;
       leaderboard \<leftarrow> call_map lpga_entry competitors;
       Some (JObj [(''tournament'', tournament),
                   (''leaderboard'', leaderboard),
                   (''fetchedAt'', JStr now)])
     }
   }"

subsection \<open>full-report\<close>

definition top_entry :: "json \<Rightarrow> nat \<Rightarrow> json option" where
  "top_entry c i = do {
     name \<leftarrow> get c ''displayName'';
     score \<leftarrow> get c ''score'';
     Some (JObj [(''position'', JNum (int i + 1)),
                 (''name'', name),
                 (''score'', score)])
   }"

text \<open>
  The \<open>pga\<close> and \<open>lpga\<close> fields are built by the same expression, on \<open>pgaEvent\<close>
  and on \<open>lpgaEvent\<close>: \<open>ev ? { ... } : null\<close>.
\<close>

definition report_section :: "json \<Rightarrow> json option" where
  "report_section ev =
     (if truthy ev
      then do {
        tournament \<leftarrow> get ev ''name'';
        fullStatus \<leftarrow> get ev ''fullStatus'';
        let status = opt_get (opt_get fullStatus ''type'') ''description'';
        fullStatus2 \<leftarrow> get ev ''fullStatus'';
        let round = opt_get fullStatus2 ''displayPeriod'';
        cs \<leftarrow> get ev ''competitors'';
        mapped \<leftarrow> (if nullish cs then Some JUndefined
                   else do { sliced \<leftarrow> call_slice cs 0 10; call_map top_entry sliced });
        Some (JObj [(''tournament'', tournament),
                    (''status'', status),
                    (''round'', round),
                    (''topPlayers'', js_or mapped (JArr []))])
      }
      else Some JNull)"

definition upcoming_entry :: "json \<Rightarrow> nat \<Rightarrow> json option" where
  "upcoming_entry e i = do {
     name \<leftarrow> get e ''label'';
     startDate \<leftarrow> get e ''startDate'';
     Some (JObj [(''name'', name), (''startDate'', startDate)])
   }"

text \<open>
  \<open>Promise.all\<close> of the three fetches resolves when all three have, and rejects as soon
  as one of them does; the \<open>await\<close> then throws.
\<close>

definition full_report :: "upstream \<Rightarrow> string \<Rightarrow> json option" where
  "full_report up now = do {
     pgaEvents \<leftarrow> fetchJSON up (ESPN_BASE @ ''/pga/events'');
     lpgaEvents \<leftarrow> fetchJSON up (ESPN_BASE @ ''/lpga/events'');
     pgaScoreboard \<leftarrow> fetchJSON up (ESPN_BASE @ ''/pga/scoreboard'');
     events \<leftarrow> get pgaEvents ''events'';
     let pgaEvent = opt_index events 0;
     levents \<leftarrow> get lpgaEvents ''events'';
     let lpgaEvent = opt_index levents 0;
     calendar \<leftarrow> league_calendar pgaScoreboard;
     sliced \<leftarrow> (if nullish calendar then Some JUndefined else call_slice calendar 0 5);
     let schedule = js_or sliced (JArr []);
     pga \<leftarrow> report_section pgaEvent;
     lpga \<leftarrow> report_section lpgaEvent;
     upcomingPGA \<leftarrow> call_map upcoming_entry schedule;
     Some (JObj [(''pga'', pga),
                 (''lpga'', lpga),
                 (''upcomingPGA'', upcomingPGA),
                 (''generatedAt'', JStr now)])
   }"

subsection \<open>The analytics handlers\<close>

text \<open>
  The payment tracker and the functions \<open>getSummary\<close>, \<open>getAllTransactions\<close> and
  \<open>exportToCSV\<close> belong to an imported package: the handlers take them as parameters.
  \<open>agent.analytics?.paymentTracker\<close> is \<open>None\<close> when the runtime or its tracker is
  missing. A summary holds three big integers and its other fields; the output lists the
  other fields first and the three totals after them (the order of the keys of the source's
  object, where each total stays at its place in the summary, is not kept).
\<close>

record 't analytics_runtime =
  paymentTracker :: "'t option"

record 't agent =
  analytics :: "'t analytics_runtime option"

record summary =
  outgoingTotal :: int
  incomingTotal :: int
  netTotal :: int
  others :: "(string \<times> json) list"

record 't analytics_lib =
  getSummary :: "'t \<Rightarrow> rat option \<Rightarrow> summary option"
  getAllTransactions :: "'t \<Rightarrow> rat option \<Rightarrow> json list option"
  exportToCSV :: "'t \<Rightarrow> rat option \<Rightarrow> string option"

definition tracker_of :: "'t agent \<Rightarrow> 't option" where
  "tracker_of ag = (case analytics ag of None \<Rightarrow> None | Some rt \<Rightarrow> paymentTracker rt)"

definition analytics_handler :: "'t analytics_lib \<Rightarrow> 't agent \<Rightarrow> rat option \<Rightarrow> json option" where
  "analytics_handler lib ag windowMs =
     (case tracker_of ag of
        None \<Rightarrow> Some (JObj [(''error'', JStr ''Analytics not available''),
                               (''payments'', JArr [])])
      | Some tracker \<Rightarrow> do {
          summary \<leftarrow> getSummary lib tracker windowMs;
          Some (JObj (others summary @
                      [(''outgoingTotal'', JStr (show_int (outgoingTotal summary))),
                       (''incomingTotal'', JStr (show_int (incomingTotal summary))),
                       (''netTotal'', JStr (show_int (netTotal summary)))]))
        })"

definition analytics_transactions ::
  "'t analytics_lib \<Rightarrow> 't agent \<Rightarrow> rat option \<Rightarrow> rat option \<Rightarrow> json option" where
  "analytics_transactions lib ag windowMs input =
     (let limit = limit_input 50 input in
      case tracker_of ag of
        None \<Rightarrow> Some (JObj [(''transactions'', JArr [])])
      | Some tracker \<Rightarrow> do {
          txs \<leftarrow> getAllTransactions lib tracker windowMs;
          Some (JObj [(''transactions'', JArr (js_slice txs 0 limit))])
        })"

definition analytics_csv :: "'t analytics_lib \<Rightarrow> 't agent \<Rightarrow> rat option \<Rightarrow> json option" where
  "analytics_csv lib ag windowMs =
     (case tracker_of ag of
        None \<Rightarrow> Some (JObj [(''csv'', JStr [])])
      | Some tracker \<Rightarrow> do {
          csv \<leftarrow> exportToCSV lib tracker windowMs;
          Some (JObj [(''csv'', JStr csv)])
        })"

section \<open>Sample data\<close>

text \<open>
  A small upstream in the shape of the ESPN responses, on which the theorems below are
  instantiated: one PGA event with three competitors, one LPGA event, and a calendar.
\<close>

definition rose :: json where
  "rose = JObj [(''id'', JStr ''569''),
                (''athlete'', JObj [(''displayName'', JStr ''Justin Rose''),
                                    (''flag'', JObj [(''alt'', JStr ''England'')])]),
                (''displayName'', JStr ''Justin Rose''),
                (''shortName'', JStr ''ENG.Rose''),
                (''score'', JStr ''-7''),
                (''status'', JObj [(''thru'', JNum 14)]),
                (''linescores'',
                   JArr [JObj [(''displayValue'', JStr ''-4''),
                               (''linescores'',
                                  JArr [JObj [(''period'', JNum 1), (''value'', JNum 3),
                                              (''scoreType'', JObj [(''displayValue'', JStr ''-1'')])],
                                        JObj [(''period'', JNum 2), (''value'', JNum 4)]])],
                         JObj [(''displayValue'', JStr ''-3'')]])]"

definition smith :: json where
  "smith = JObj [(''id'', JStr ''9478''),
                 (''athlete'', JObj [(''displayName'', JStr ''Cameron Smith'')]),
                 (''displayName'', JStr ''Cameron Smith''),
                 (''shortName'', JStr ''USA.Smith''),
                 (''score'', JStr ''-5'')]"

definition doe :: json where
  "doe = JObj [(''id'', JStr ''3470''), (''displayName'', JStr ''John Doe''), (''score'', JStr ''E'')]"

definition demo_pga_event :: json where
  "demo_pga_event =
     JObj [(''id'', JStr ''401580329''),
           (''name'', JStr ''The Open''),
           (''date'', JStr ''2025-07-17T04:00Z''),
           (''fullStatus'', JObj [(''displayPeriod'', JStr ''Round 2''),
                                  (''type'', JObj [(''description'', JStr ''In Progress'')])]),
           (''competitors'', JArr [rose, smith, doe])]"

definition charley :: json where
  "charley = JObj [(''displayName'', JStr ''Charley Hull''),
                (''score'', JStr ''-6''),
                (''logo'', JStr ''https://a.espncdn.com/i/teamlogos/countries/500/ENG.png'')]"

definition korda :: json where
  "korda = JObj [(''displayName'', JStr ''Nelly Korda''),
                 (''score'', JStr ''-2''),
                 (''logo'', JStr ''https://a.espncdn.com/i/headshots/golf/players/full/9.png'')]"

definition demo_lpga_event :: json where
  "demo_lpga_event =
     JObj [(''id'', JStr ''401703428''),
           (''name'', JStr ''Evian Championship''),
           (''competitors'', JArr [charley, korda])]"

definition demo_calendar :: "json list" where
  "demo_calendar =
     [JObj [(''id'', JStr ''401580329''), (''label'', JStr ''The Open''),
            (''startDate'', JStr ''2025-07-17T04:00Z''), (''endDate'', JStr ''2025-07-20T04:00Z'')],
      JObj [(''id'', JStr ''401580330''), (''label'', JStr ''3M Open''),
            (''startDate'', JStr ''2025-07-24T04:00Z''), (''endDate'', JStr ''2025-07-27T04:00Z'')],
      JObj [(''id'', JStr ''401580331''), (''label'', JStr ''Wyndham Championship''),
            (''startDate'', JStr ''2025-07-31T04:00Z''), (''endDate'', JStr ''2025-08-03T04:00Z'')]]"

definition demo_scoreboard :: json where
  "demo_scoreboard =
     JObj [(''leagues'', JArr [JObj [(''season'', JObj [(''displayName'', JStr ''2025'')]),
                                     (''calendar'', JArr demo_calendar)]]),
           (''events'', JArr [JObj [(''competitions'',
                                       JArr [JObj [(''competitors'', JArr [rose, smith, doe])]])]])]"

definition ok_response :: "json \<Rightarrow> response" where
  "ok_response j = \<lparr>ok = True, status = 200, body = Some j\<rparr>"

definition demo_upstream :: upstream where
  "demo_upstream url =
     (if url = ESPN_BASE @ ''/pga/events''
        then Some (ok_response (JObj [(''events'', JArr [demo_pga_event])]))
      else if url = ESPN_BASE @ ''/lpga/events''
        then Some (ok_response (JObj [(''events'', JArr [demo_lpga_event])]))
      else if url = ESPN_BASE @ ''/pga/scoreboard''
        then Some (ok_response demo_scoreboard)
      else if url = ESPN_BASE @ ''/pga/scoreboard?event=401580329''
        then Some (ok_response demo_scoreboard)
      else Some \<lparr>ok = False, status = 404, body = None\<rparr>)"

text \<open>The same upstream in a week without tournaments: both event lists are empty.\<close>

definition quiet_upstream :: upstream where
  "quiet_upstream url =
     (if url = ESPN_BASE @ ''/pga/events'' \<or> url = ESPN_BASE @ ''/lpga/events''
        then Some (ok_response (JObj [(''events'', JArr [])]))
      else if url = ESPN_BASE @ ''/pga/scoreboard''
        then Some (ok_response
               (JObj [(''leagues'', JArr [JObj [(''calendar'', JArr demo_calendar)]]),
                      (''events'', JArr [])]))
      else Some \<lparr>ok = False, status = 404, body = None\<rparr>)"

text \<open>An agent without the analytics runtime, one with a tracker, and a library for it.\<close>

definition bare_agent :: "unit agent" where
  "bare_agent = \<lparr>analytics = None\<rparr>"

definition tracked_agent :: "unit agent" where
  "tracked_agent = \<lparr>analytics = Some \<lparr>paymentTracker = Some ()\<rparr>\<rparr>"

definition demo_lib :: "unit analytics_lib" where
  "demo_lib =
     \<lparr>getSummary = (\<lambda>t w. Some \<lparr>outgoingTotal = 0, incomingTotal = 7000, netTotal = 7000,
                                   others = [(''incomingCount'', JNum 4)]\<rparr>),
      getAllTransactions = (\<lambda>t w. Some [JObj [(''amount'', JStr ''1000'')],
                                        JObj [(''amount'', JStr ''2000'')],
                                        JObj [(''amount'', JStr ''2000'')],
                                        JObj [(''amount'', JStr ''2000'')]]),
      exportToCSV = (\<lambda>t w. Some ''id,amount'')\<rparr>"

text \<open>A clock reading.\<close>

definition demo_now :: string where
  "demo_now = ''2025-07-18T10:00:00.000Z''"

text \<open>An upstream with a PGA event and no LPGA event.\<close>

definition pga_only_upstream :: upstream where
  "pga_only_upstream url =
     (if url = ESPN_BASE @ ''/lpga/events''
        then Some (ok_response (JObj [(''events'', JArr [])]))
      else demo_upstream url)"

text \<open>An upstream whose scoreboard call is refused.\<close>

definition broken_upstream :: upstream where
  "broken_upstream url =
     (if url = ESPN_BASE @ ''/pga/scoreboard''
        then Some \<lparr>ok = False, status = 503, body = None\<rparr>
      else demo_upstream url)"

section \<open>Well-formed upstream lists\<close>

text \<open>
  A \<open>map\<close> callback reads properties of its element and so throws on \<open>null\<close>.
  \<open>entries_ok n v\<close>: the value \<open>v\<close> is absent, or it is a list and none of its first
  \<open>n\<close> entries is \<open>null\<close>.
\<close>

fun entries_ok :: "nat \<Rightarrow> json \<Rightarrow> bool" where
  "entries_ok n JUndefined = True"
| "entries_ok n JNull = True"
| "entries_ok n (JArr xs) = list_all (\<lambda>x. \<not> nullish x) (take n xs)"
| "entries_ok n _ = False"

text \<open>
  The country of overview calls \<open>split\<close> on \<open>shortName\<close> and that of lpga-leaderboard
  calls \<open>includes\<close> on \<open>logo\<close>: the calls go through when the field is absent or a
  string.
\<close>

fun absent_or_string :: "json \<Rightarrow> bool" where
  "absent_or_string JUndefined = True"
| "absent_or_string JNull = True"
| "absent_or_string (JStr s) = True"
| "absent_or_string _ = False"

definition overview_row_ok :: "json \<Rightarrow> bool" where
  "overview_row_ok c = (\<not> nullish c \<and> absent_or_string (read_prop c ''shortName''))"

definition lpga_row_ok :: "json \<Rightarrow> bool" where
  "lpga_row_ok c = (\<not> nullish c \<and> absent_or_string (read_prop c ''logo''))"

text \<open>
  A round of a scorecard: not \<open>null\<close>, with hole scores that are absent or a list
  without \<open>null\<close>.
\<close>

definition round_ok :: "json \<Rightarrow> bool" where
  "round_ok r =
     (\<not> nullish r \<and>
      (case read_prop r ''linescores'' of
         JUndefined \<Rightarrow> True
       | JNull \<Rightarrow> True
       | JArr hs \<Rightarrow> list_all (\<lambda>h. \<not> nullish h) hs
       | _ \<Rightarrow> False))"

section \<open>Basic facts about the JavaScript operations\<close>

lemma truthy_not_nullish: "truthy x \<Longrightarrow> \<not> nullish x"
  by (cases x) simp_all

lemma get_eq: "\<not> nullish x \<Longrightarrow> get x p = Some (read_prop x p)"
  by (simp add: get_def)

lemma map_js_length: "map_js f xs k = Some ys \<Longrightarrow> length ys = length xs"
  by (induction xs arbitrary: k ys) (auto split: bind_splits)

lemma map_js_nth:
  "map_js f xs k = Some ys \<Longrightarrow> j < length xs \<Longrightarrow> f (xs ! j) (k + j) = Some (ys ! j)"
proof (induction xs arbitrary: k ys j)
  case Nil
  then show ?case by simp
next
  case (Cons c cs)
  from Cons.prems(1) obtain y ys' where
    y: "f c k = Some y" and ys': "map_js f cs (Suc k) = Some ys'" and ys: "ys = y # ys'"
    by (auto split: bind_splits)
  show ?case
  proof (cases j)
    case 0
    then show ?thesis using y ys by simp
  next
    case (Suc j')
    then have "j' < length cs" using Cons.prems(2) by simp
    from Cons.IH [OF ys' this] show ?thesis using Suc ys by simp
  qed
qed

lemma map_js_total:
  "(\<And>c i. c \<in> set xs \<Longrightarrow> \<exists>y. f c i = Some y) \<Longrightarrow> \<exists>ys. map_js f xs k = Some ys"
proof (induction xs arbitrary: k)
  case Nil
  then show ?case by simp
next
  case (Cons c cs)
  obtain y where y: "f c k = Some y" using Cons.prems [of c k] by auto
  obtain ys where "map_js f cs (Suc k) = Some ys" using Cons.IH [of "Suc k"] Cons.prems by auto
  with y show ?case by simp
qed

lemma to_integer_nonneg: "0 \<le> q \<Longrightarrow> to_integer q = \<lfloor>q\<rfloor>"
  by (simp add: to_integer_def)

lemma to_integer_neg_iff: "to_integer q < 0 \<longleftrightarrow> q \<le> - 1"
proof (cases "q < 0")
  case True
  have "0 < \<lfloor>- q\<rfloor> \<longleftrightarrow> 1 \<le> - q" by (simp add: zero_less_floor)
  then show ?thesis using True by (simp add: to_integer_def)
next
  case False
  then have "0 \<le> \<lfloor>q\<rfloor>" by simp
  then show ?thesis using False by (simp add: to_integer_def)
qed

lemma js_slice_nonneg: "0 \<le> n \<Longrightarrow> js_slice xs 0 n = take (nat \<lfloor>n\<rfloor>) xs"
  by (simp add: js_slice_def to_integer_def Let_def min_def)

lemma js_slice_neg:
  "n \<le> - 1 \<Longrightarrow> js_slice xs 0 n = take (length xs - nat \<lfloor>- n\<rfloor>) xs"
proof -
  assume a: "n \<le> - 1"
  then have neg: "to_integer n < 0" by (simp add: to_integer_neg_iff)
  have t: "to_integer n = - \<lfloor>- n\<rfloor>" using a by (simp add: to_integer_def)
  have z: "to_integer 0 = 0" by (simp add: to_integer_def)
  have p: "0 \<le> \<lfloor>- n\<rfloor>" using a by simp
  have "nat (max (int (length xs) - \<lfloor>- n\<rfloor>) 0) = length xs - nat \<lfloor>- n\<rfloor>"
    using p by (simp add: max_def nat_diff_distrib')
  then show ?thesis
    using neg by (simp add: js_slice_def t z Let_def)
qed

lemma js_slice_fraction: "- 1 < n \<Longrightarrow> n < 0 \<Longrightarrow> js_slice xs 0 n = []"
proof -
  assume a: "- 1 < n" "n < 0"
  then have "\<not> to_integer n < 0" by (simp add: to_integer_neg_iff)
  moreover have "to_integer n \<le> 0" using a by (simp add: to_integer_def)
  ultimately have "to_integer n = 0" by simp
  then show ?thesis by (simp add: js_slice_def to_integer_def Let_def)
qed

lemma includes_str_Nil: "includes_str [] s"
  by (cases s) simp_all

lemma includes_str_here: "includes_str sub (sub @ r)"
  by (cases sub) (simp_all add: includes_str_Nil)

lemma includes_str_append: "includes_str sub (p @ sub @ r)"
  by (induction p) (simp_all add: includes_str_here)

lemma split_str_first:
  "sep \<noteq> [] \<Longrightarrow> \<not> includes_str sep (p @ butlast sep) \<Longrightarrow>
   split_str sep acc (p @ sep @ r) = (rev acc @ p) # split_str sep [] r"
proof (induction p arbitrary: acc)
  case Nil
  then obtain c s' where sep: "sep = c # s'" by (cases sep) auto
  then show ?case by simp
next
  case (Cons x p')
  let ?q = "x # p' @ butlast sep"
  have np: "\<not> prefix sep ?q" and ni: "\<not> includes_str sep (p' @ butlast sep)"
    using Cons.prems(2) by simp_all
  have "\<not> prefix sep (x # p' @ sep @ r)"
  proof
    assume a: "prefix sep (x # p' @ sep @ r)"
    have e: "x # p' @ sep @ r = ?q @ (last sep # r)"
      using Cons.prems(1) by simp
    have "prefix ?q (x # p' @ sep @ r)" unfolding e by simp
    moreover have "length sep \<le> length ?q" using Cons.prems(1) by simp
    ultimately have "prefix sep ?q" using a by (rule_tac prefix_length_prefix)
    with np show False ..
  qed
  then have "split_str sep acc ((x # p') @ sep @ r) = split_str sep (x # acc) (p' @ sep @ r)"
    by simp
  also have "\<dots> = (rev (x # acc) @ p') # split_str sep [] r"
    using Cons.IH [OF Cons.prems(1) ni] .
  finally show ?case by simp
qed

section \<open>Country extraction\<close>

lemma overview_country_usa:
  assumes "\<not> nullish c" and "read_prop c ''shortName'' = JStr ''USA.Smith''"
  shows "\<exists>e. overview_entry c i = Some e \<and> read_prop e ''country'' = JStr ''USA''"
  using assms
  apply (simp add: overview_entry_def get_eq)
  apply (simp add: split_js_def js_or_def)
  done

lemma overview_country_absent:
  assumes "\<not> nullish c" and "nullish (read_prop c ''shortName'')"
  shows "\<exists>e. overview_entry c i = Some e \<and> read_prop e ''country'' = JStr ''N/A''"
  using assms
  apply (simp add: overview_entry_def get_eq)
  apply (simp add: js_or_def)
  done

lemma logo_country_eng:
  assumes "\<not> nullish c"
    and "read_prop c ''logo'' = JStr (p @ ''/countries/500/ENG.png'')"
    and "\<not> includes_str ''/countries/500/'' (p @ ''/countries/500'')"
  shows "logo_country c = Some (JStr ''ENG'')"
proof -
  have inc: "includes_str ''/countries/'' (p @ ''/countries/'' @ ''500/ENG.png'')"
    by (rule includes_str_append)
  have sp: "split_str ''/countries/500/'' [] (p @ ''/countries/500/'' @ ''ENG.png'')
        = (rev [] @ p) # split_str ''/countries/500/'' [] ''ENG.png''"
    by (rule split_str_first) (use assms(3) in simp_all)
  have tl: "split_str ''/countries/500/'' [] ''ENG.png'' = [''ENG.png'']" by simp
  show ?thesis using assms(1,2) inc sp tl
    by (simp add: logo_country_def get_eq split_js_def upper_char_def)
qed

lemma logo_country_na:
  assumes "\<not> nullish c"
    and "nullish (read_prop c ''logo'')
         \<or> (\<exists>s. read_prop c ''logo'' = JStr s \<and> \<not> includes_str ''/countries/'' s)"
  shows "logo_country c = Some (JStr ''N/A'')"
  using assms by (auto simp add: logo_country_def get_eq)

lemma lpga_entry_country:
  assumes "\<not> nullish c" and "logo_country c = Some v"
  shows "\<exists>e. lpga_entry c i = Some e \<and> read_prop e ''country'' = v"
  using assms by (simp add: lpga_entry_def get_eq)

text \<open>
  C3 (as the code has it). In the overview handler a competitor whose \<open>shortName\<close> is
  \<open>USA.Smith\<close> gets the country \<open>USA\<close>, and one whose \<open>shortName\<close> is absent gets
  \<open>N/A\<close>. In the lpga-leaderboard handler a competitor whose logo ends with
  \<open>/countries/500/ENG.png\<close>, with no earlier occurrence of \<open>/countries/500/\<close>, gets
  \<open>ENG\<close>; one whose logo is absent, or a string without \<open>/countries/\<close>, gets \<open>N/A\<close>.
\<close>

theorem country_extraction:
  "(\<not> nullish c \<and> read_prop c ''shortName'' = JStr ''USA.Smith''
      \<longrightarrow> (\<exists>e. overview_entry c i = Some e \<and> read_prop e ''country'' = JStr ''USA''))
   \<and> (\<not> nullish c \<and> nullish (read_prop c ''shortName'')
      \<longrightarrow> (\<exists>e. overview_entry c i = Some e \<and> read_prop e ''country'' = JStr ''N/A''))
   \<and> (\<not> nullish c \<and> read_prop c ''logo'' = JStr (p @ ''/countries/500/ENG.png'')
        \<and> \<not> includes_str ''/countries/500/'' (p @ ''/countries/500'')
      \<longrightarrow> (\<exists>e. lpga_entry c i = Some e \<and> read_prop e ''country'' = JStr ''ENG''))
   \<and> (\<not> nullish c
        \<and> (nullish (read_prop c ''logo'')
            \<or> (\<exists>s. read_prop c ''logo'' = JStr s \<and> \<not> includes_str ''/countries/'' s))
      \<longrightarrow> (\<exists>e. lpga_entry c i = Some e \<and> read_prop e ''country'' = JStr ''N/A''))"
proof (intro conjI impI)
  assume "\<not> nullish c \<and> read_prop c ''shortName'' = JStr ''USA.Smith''"
  then show "\<exists>e. overview_entry c i = Some e \<and> read_prop e ''country'' = JStr ''USA''"
    using overview_country_usa by blast
next
  assume "\<not> nullish c \<and> nullish (read_prop c ''shortName'')"
  then show "\<exists>e. overview_entry c i = Some e \<and> read_prop e ''country'' = JStr ''N/A''"
    using overview_country_absent by blast
next
  assume "\<not> nullish c \<and> read_prop c ''logo'' = JStr (p @ ''/countries/500/ENG.png'')
          \<and> \<not> includes_str ''/countries/500/'' (p @ ''/countries/500'')"
  then have "\<not> nullish c" and "logo_country c = Some (JStr ''ENG'')"
    using logo_country_eng by blast+
  then show "\<exists>e. lpga_entry c i = Some e \<and> read_prop e ''country'' = JStr ''ENG''"
    by (rule lpga_entry_country)
next
  assume "\<not> nullish c
          \<and> (nullish (read_prop c ''logo'')
              \<or> (\<exists>s. read_prop c ''logo'' = JStr s \<and> \<not> includes_str ''/countries/'' s))"
  then have "\<not> nullish c" and "logo_country c = Some (JStr ''N/A'')"
    using logo_country_na by blast+
  then show "\<exists>e. lpga_entry c i = Some e \<and> read_prop e ''country'' = JStr ''N/A''"
    by (rule lpga_entry_country)
qed

theorem country_extraction_witness:
  "(\<not> nullish smith \<and> read_prop smith ''shortName'' = JStr ''USA.Smith'')
   \<and> (\<exists>e. overview_entry smith 1 = Some e \<and> read_prop e ''country'' = JStr ''USA'')
   \<and> (\<not> nullish doe \<and> nullish (read_prop doe ''shortName''))
   \<and> (\<exists>e. overview_entry doe 2 = Some e \<and> read_prop e ''country'' = JStr ''N/A'')
   \<and> (\<not> nullish charley
        \<and> read_prop charley ''logo''
            = JStr (''https://a.espncdn.com/i/teamlogos'' @ ''/countries/500/ENG.png'')
        \<and> \<not> includes_str ''/countries/500/''
              (''https://a.espncdn.com/i/teamlogos'' @ ''/countries/500''))
   \<and> (\<exists>e. lpga_entry charley 0 = Some e \<and> read_prop e ''country'' = JStr ''ENG'')
   \<and> (\<not> nullish korda
        \<and> (nullish (read_prop korda ''logo'')
            \<or> (\<exists>s. read_prop korda ''logo'' = JStr s \<and> \<not> includes_str ''/countries/'' s)))
   \<and> (\<exists>e. lpga_entry korda 1 = Some e \<and> read_prop e ''country'' = JStr ''N/A'')"
proof -
  have h1: "\<not> nullish smith \<and> read_prop smith ''shortName'' = JStr ''USA.Smith''"
    by (simp add: smith_def)
  have h2: "\<not> nullish doe \<and> nullish (read_prop doe ''shortName'')"
    by (simp add: doe_def)
  have h3: "\<not> nullish charley
        \<and> read_prop charley ''logo''
            = JStr (''https://a.espncdn.com/i/teamlogos'' @ ''/countries/500/ENG.png'')
        \<and> \<not> includes_str ''/countries/500/''
              (''https://a.espncdn.com/i/teamlogos'' @ ''/countries/500'')"
    by (simp add: charley_def)
  have h4: "\<not> nullish korda
        \<and> (nullish (read_prop korda ''logo'')
            \<or> (\<exists>s. read_prop korda ''logo'' = JStr s \<and> \<not> includes_str ''/countries/'' s))"
    by (simp add: korda_def)
  note c1 = country_extraction [where c = smith and i = 1, THEN conjunct1, THEN mp, OF h1]
  note c2 = country_extraction [where c = doe and i = 2,
      THEN conjunct2, THEN conjunct1, THEN mp, OF h2]
  note c3 = country_extraction [where c = charley and i = 0
        and p = "''https://a.espncdn.com/i/teamlogos''",
      THEN conjunct2, THEN conjunct2, THEN conjunct1, THEN mp, OF h3]
  note c4 = country_extraction [where c = korda and i = 1,
      THEN conjunct2, THEN conjunct2, THEN conjunct2, THEN mp, OF h4]
  show ?thesis
    by (intro conjI h1 [THEN conjunct1] h1 [THEN conjunct2] h2 [THEN conjunct1]
        h2 [THEN conjunct2] h3 [THEN conjunct1] h3 [THEN conjunct2, THEN conjunct1]
        h3 [THEN conjunct2, THEN conjunct2] h4 [THEN conjunct1] h4 [THEN conjunct2]
        c1 c2 c3 c4)
qed

text \<open>
  C3 as stated fails: the logo below contains \<open>/countries/500/ENG.png\<close>, and the country
  the lpga-leaderboard handler gives its competitor is not \<open>ENG\<close>, since everything after
  \<open>/countries/500/\<close> is kept but the first \<open>.png\<close>.
\<close>

theorem country_extraction_counterexample:
  "includes_str ''/countries/500/ENG.png''
     ''https://a.espncdn.com/i/teamlogos/countries/500/ENG.png?w=40''
   \<and> lpga_entry (JObj [(''displayName'', JStr ''Charley Hull''),
                       (''score'', JStr ''-6''),
                       (''logo'', JStr ''https://a.espncdn.com/i/teamlogos/countries/500/ENG.png?w=40'')]) 0
       = Some (JObj [(''position'', JNum 1),
                     (''name'', JStr ''Charley Hull''),
                     (''score'', JStr ''-6''),
                     (''country'', JStr ''ENG?W=40'')])"
  by (simp add: lpga_entry_def logo_country_def get_def split_js_def upper_char_def)

section \<open>Analytics without a tracker\<close>

text \<open>
  C9. When \<open>agent.analytics?.paymentTracker\<close> is missing, the analytics handler returns
  its notice with an empty \<open>payments\<close> list and none of the summary fields, the
  analytics-transactions handler an empty transaction list, and the analytics-csv handler
  the empty string; each of them returns.
\<close>

theorem analytics_without_tracker:
  assumes "tracker_of ag = None"
  shows "analytics_handler lib ag windowMs
           = Some (JObj [(''error'', JStr ''Analytics not available''), (''payments'', JArr [])])
       \<and> (\<forall>out. analytics_handler lib ag windowMs = Some out \<longrightarrow>
              read_prop out ''outgoingTotal'' = JUndefined
            \<and> read_prop out ''incomingTotal'' = JUndefined
            \<and> read_prop out ''netTotal'' = JUndefined)
       \<and> analytics_transactions lib ag windowMs input = Some (JObj [(''transactions'', JArr [])])
       \<and> analytics_csv lib ag windowMs = Some (JObj [(''csv'', JStr [])])"
  using assms
  by (simp add: analytics_handler_def analytics_transactions_def analytics_csv_def)

theorem analytics_without_tracker_witness:
  "tracker_of bare_agent = None
   \<and> analytics_handler demo_lib bare_agent None
       = Some (JObj [(''error'', JStr ''Analytics not available''), (''payments'', JArr [])])
   \<and> analytics_transactions demo_lib bare_agent None (Some 50)
       = Some (JObj [(''transactions'', JArr [])])
   \<and> analytics_csv demo_lib bare_agent None = Some (JObj [(''csv'', JStr [])])"
proof -
  have h: "tracker_of bare_agent = None"
    by (simp add: tracker_of_def bare_agent_def)
  show ?thesis
    using h analytics_without_tracker [OF h, of demo_lib None "Some 50"] by simp
qed

section \<open>Timestamps\<close>

lemma overview_fetchedAt:
  "overview up now = Some out \<Longrightarrow> read_prop out ''fetchedAt'' = JStr now"
  by (auto simp add: overview_def Let_def split: bind_splits if_splits)

lemma pga_schedule_fetchedAt:
  "pga_schedule up now input = Some out \<Longrightarrow> read_prop out ''fetchedAt'' = JStr now"
  by (auto simp add: pga_schedule_def Let_def split: bind_splits)

lemma full_report_generatedAt:
  "full_report up now = Some out \<Longrightarrow> read_prop out ''generatedAt'' = JStr now"
  by (auto simp add: full_report_def Let_def split: bind_splits)

lemma pga_leaderboard_fetchedAt:
  "pga_leaderboard up now input = Some out \<Longrightarrow> read_prop out ''error'' = JUndefined \<Longrightarrow>
   read_prop out ''fetchedAt'' = JStr now"
  by (auto simp add: pga_leaderboard_def Let_def split: bind_splits if_splits)

lemma lpga_leaderboard_fetchedAt:
  "lpga_leaderboard up now input = Some out \<Longrightarrow> read_prop out ''error'' = JUndefined \<Longrightarrow>
   read_prop out ''fetchedAt'' = JStr now"
  by (auto simp add: lpga_leaderboard_def Let_def split: bind_splits if_splits)

lemma player_scorecard_fetchedAt:
  "player_scorecard up now playerId = Some out \<Longrightarrow> read_prop out ''error'' = JUndefined \<Longrightarrow>
   read_prop out ''fetchedAt'' = JStr now"
  by (auto simp add: player_scorecard_def Let_def split: bind_splits if_splits)

text \<open>
  C2 (as the code has it). Every output of overview, pga-schedule and full-report, and
  every output of pga-leaderboard, lpga-leaderboard and player-scorecard that is not
  error-shaped, holds the time string taken when the response is built, under
  \<open>fetchedAt\<close> (\<open>generatedAt\<close> in full-report).
\<close>

theorem output_timestamps:
  "(overview up now = Some out \<longrightarrow> read_prop out ''fetchedAt'' = JStr now)
   \<and> (pga_schedule up now input = Some out \<longrightarrow> read_prop out ''fetchedAt'' = JStr now)
   \<and> (full_report up now = Some out \<longrightarrow> read_prop out ''generatedAt'' = JStr now)
   \<and> (pga_leaderboard up now input = Some out \<and> read_prop out ''error'' = JUndefined
        \<longrightarrow> read_prop out ''fetchedAt'' = JStr now)
   \<and> (lpga_leaderboard up now input = Some out \<and> read_prop out ''error'' = JUndefined
        \<longrightarrow> read_prop out ''fetchedAt'' = JStr now)
   \<and> (player_scorecard up now playerId = Some out \<and> read_prop out ''error'' = JUndefined
        \<longrightarrow> read_prop out ''fetchedAt'' = JStr now)"
proof (intro conjI impI)
  assume "overview up now = Some out"
  then show "read_prop out ''fetchedAt'' = JStr now" by (rule overview_fetchedAt)
next
  assume "pga_schedule up now input = Some out"
  then show "read_prop out ''fetchedAt'' = JStr now" by (rule pga_schedule_fetchedAt)
next
  assume "full_report up now = Some out"
  then show "read_prop out ''generatedAt'' = JStr now" by (rule full_report_generatedAt)
next
  assume "pga_leaderboard up now input = Some out \<and> read_prop out ''error'' = JUndefined"
  then show "read_prop out ''fetchedAt'' = JStr now"
    using pga_leaderboard_fetchedAt [of up now input out] by simp
next
  assume "lpga_leaderboard up now input = Some out \<and> read_prop out ''error'' = JUndefined"
  then show "read_prop out ''fetchedAt'' = JStr now"
    using lpga_leaderboard_fetchedAt [of up now input out] by simp
next
  assume "player_scorecard up now playerId = Some out \<and> read_prop out ''error'' = JUndefined"
  then show "read_prop out ''fetchedAt'' = JStr now"
    using player_scorecard_fetchedAt [of up now playerId out] by simp
qed

theorem output_timestamps_witness:
  "(\<exists>out. overview demo_upstream demo_now = Some out
          \<and> read_prop out ''fetchedAt'' = JStr demo_now)
   \<and> (\<exists>out. pga_schedule demo_upstream demo_now None = Some out
          \<and> read_prop out ''fetchedAt'' = JStr demo_now)
   \<and> (\<exists>out. full_report demo_upstream demo_now = Some out
          \<and> read_prop out ''generatedAt'' = JStr demo_now)
   \<and> (\<exists>out. pga_leaderboard demo_upstream demo_now None = Some out
          \<and> read_prop out ''error'' = JUndefined
          \<and> read_prop out ''fetchedAt'' = JStr demo_now)
   \<and> (\<exists>out. lpga_leaderboard demo_upstream demo_now None = Some out
          \<and> read_prop out ''error'' = JUndefined
          \<and> read_prop out ''fetchedAt'' = JStr demo_now)
   \<and> (\<exists>out. player_scorecard demo_upstream demo_now ''569'' = Some out
          \<and> read_prop out ''error'' = JUndefined
          \<and> read_prop out ''fetchedAt'' = JStr demo_now)"
proof -
  have "overview demo_upstream demo_now \<noteq> None"
    by code_simp
  then obtain o1 where o1: "overview demo_upstream demo_now = Some o1" by blast
  have "pga_schedule demo_upstream demo_now None \<noteq> None"
    by code_simp
  then obtain o2 where o2: "pga_schedule demo_upstream demo_now None = Some o2" by blast
  have "full_report demo_upstream demo_now \<noteq> None"
    by code_simp
  then obtain o3 where o3: "full_report demo_upstream demo_now = Some o3" by blast
  have "case pga_leaderboard demo_upstream demo_now None of
          None \<Rightarrow> False | Some out \<Rightarrow> read_prop out ''error'' = JUndefined"
    by code_simp
  then obtain o4 where o4: "pga_leaderboard demo_upstream demo_now None = Some o4
      \<and> read_prop o4 ''error'' = JUndefined"
    by (cases "pga_leaderboard demo_upstream demo_now None") simp_all
  have "case lpga_leaderboard demo_upstream demo_now None of
          None \<Rightarrow> False | Some out \<Rightarrow> read_prop out ''error'' = JUndefined"
    by code_simp
  then obtain o5 where o5: "lpga_leaderboard demo_upstream demo_now None = Some o5
      \<and> read_prop o5 ''error'' = JUndefined"
    by (cases "lpga_leaderboard demo_upstream demo_now None") simp_all
  have "case player_scorecard demo_upstream demo_now ''569'' of
          None \<Rightarrow> False | Some out \<Rightarrow> read_prop out ''error'' = JUndefined"
    by code_simp
  then obtain o6 where o6: "player_scorecard demo_upstream demo_now ''569'' = Some o6
      \<and> read_prop o6 ''error'' = JUndefined"
    by (cases "player_scorecard demo_upstream demo_now ''569''") simp_all
  note t1 = output_timestamps [where up = demo_upstream and now = demo_now and out = o1,
      THEN conjunct1, THEN mp, OF o1]
  note t2 = output_timestamps [where up = demo_upstream and now = demo_now and out = o2
        and input = None,
      THEN conjunct2, THEN conjunct1, THEN mp, OF o2]
  note t3 = output_timestamps [where up = demo_upstream and now = demo_now and out = o3,
      THEN conjunct2, THEN conjunct2, THEN conjunct1, THEN mp, OF o3]
  note t4 = output_timestamps [where up = demo_upstream and now = demo_now and out = o4
        and input = None,
      THEN conjunct2, THEN conjunct2, THEN conjunct2, THEN conjunct1, THEN mp, OF o4]
  note t5 = output_timestamps [where up = demo_upstream and now = demo_now and out = o5
        and input = None,
      THEN conjunct2, THEN conjunct2, THEN conjunct2, THEN conjunct2, THEN conjunct1,
      THEN mp, OF o5]
  note t6 = output_timestamps [where up = demo_upstream and now = demo_now and out = o6
        and playerId = "''569''",
      THEN conjunct2, THEN conjunct2, THEN conjunct2, THEN conjunct2, THEN conjunct2,
      THEN mp, OF o6]
  show ?thesis
    using o1 o2 o3 o4 o5 o6 t1 t2 t3 t4 t5 t6 by simp
qed

text \<open>
  C2 as stated fails: without a tracker the analytics-csv handler returns an object whose
  only field is \<open>csv\<close>, and in a week without tournament the pga-leaderboard handler
  returns an object whose only field is \<open>error\<close>; neither holds a timestamp.
\<close>

theorem output_timestamps_counterexample:
  "analytics_csv demo_lib bare_agent None = Some (JObj [(''csv'', JStr [])])
   \<and> read_prop (JObj [(''csv'', JStr [])]) ''fetchedAt'' = JUndefined
   \<and> read_prop (JObj [(''csv'', JStr [])]) ''generatedAt'' = JUndefined
   \<and> pga_leaderboard quiet_upstream demo_now None
       = Some (JObj [(''error'', JStr ''No active PGA tournament'')])
   \<and> read_prop (JObj [(''error'', JStr ''No active PGA tournament'')]) ''fetchedAt'' = JUndefined
   \<and> read_prop (JObj [(''error'', JStr ''No active PGA tournament'')]) ''generatedAt''
       = JUndefined"
  by code_simp

section \<open>Weeks without a tournament\<close>

lemma overview_no_event:
  assumes "fetchJSON up (ESPN_BASE @ ''/pga/events'') = Some data"
    and "get data ''events'' = Some (JArr [])"
  shows "overview up now
           = Some (JObj [(''message'', JStr ''No active tournament''), (''fetchedAt'', JStr now)])"
  using assms by (simp add: overview_def opt_index_def)

lemma pga_leaderboard_no_event:
  assumes "fetchJSON up (ESPN_BASE @ ''/pga/events'') = Some data"
    and "get data ''events'' = Some (JArr [])"
  shows "pga_leaderboard up now input
           = Some (JObj [(''error'', JStr ''No active PGA tournament'')])"
  using assms by (simp add: pga_leaderboard_def opt_index_def)

lemma player_scorecard_no_event:
  assumes "fetchJSON up (ESPN_BASE @ ''/pga/events'') = Some data"
    and "get data ''events'' = Some (JArr [])"
  shows "player_scorecard up now playerId
           = Some (JObj [(''error'', JStr ''No active tournament'')])"
  using assms by (simp add: player_scorecard_def opt_index_def)

lemma lpga_leaderboard_no_event:
  assumes "fetchJSON up (ESPN_BASE @ ''/lpga/events'') = Some data"
    and "get data ''events'' = Some (JArr [])"
  shows "lpga_leaderboard up now input
           = Some (JObj [(''error'', JStr ''No active LPGA tournament'')])"
  using assms by (simp add: lpga_leaderboard_def opt_index_def)

lemma call_map_total:
  assumes "list_all (\<lambda>x. \<not> nullish x) xs"
    and "\<And>c i. \<not> nullish c \<Longrightarrow> \<exists>y. f c i = Some y"
  shows "\<exists>ys. call_map f (JArr xs) = Some (JArr ys) \<and> length ys = length xs"
proof -
  have "\<exists>ys. map_js f xs 0 = Some ys"
    using assms by (intro map_js_total) (simp add: list_all_iff)
  then obtain ys where ys: "map_js f xs 0 = Some ys" ..
  then have "length ys = length xs" by (rule map_js_length)
  with ys show ?thesis by simp
qed

lemma upcoming_entry_total: "\<not> nullish e \<Longrightarrow> \<exists>y. upcoming_entry e i = Some y"
  by (simp add: upcoming_entry_def get_eq)

lemma top_entry_total: "\<not> nullish c \<Longrightarrow> \<exists>y. top_entry c i = Some y"
  by (simp add: top_entry_def get_eq)

text \<open>The \<open>upcomingPGA\<close> list of full-report, from a calendar that is absent or a list.\<close>

lemma report_schedule_total:
  assumes "entries_ok 5 calendar"
  shows "\<exists>sliced ys. (if nullish calendar then Some JUndefined else call_slice calendar 0 5)
                        = Some sliced
           \<and> call_map upcoming_entry (js_or sliced (JArr [])) = Some (JArr ys)
           \<and> length ys \<le> 5"
proof (cases calendar)
  case (JArr xs)
  then have ok: "list_all (\<lambda>x. \<not> nullish x) (take 5 xs)"
    using assms by simp
  obtain ys where "call_map upcoming_entry (JArr (take 5 xs)) = Some (JArr ys)"
    and "length ys = length (take 5 xs)"
    using call_map_total [of "take 5 xs" upcoming_entry, OF ok upcoming_entry_total] by blast
  then show ?thesis using JArr by (simp add: js_slice_nonneg js_or_def)
qed (use assms in \<open>simp_all add: js_or_def\<close>)

lemma report_section_null: "\<not> truthy ev \<Longrightarrow> report_section ev = Some JNull"
  by (simp add: report_section_def)

lemma report_section_total:
  assumes "truthy ev" and "entries_ok 10 (read_prop ev ''competitors'')"
  shows "\<exists>tp. report_section ev
                 = Some (JObj [(''tournament'', read_prop ev ''name''),
                               (''status'', opt_get (opt_get (read_prop ev ''fullStatus'') ''type'')
                                              ''description''),
                               (''round'', opt_get (read_prop ev ''fullStatus'') ''displayPeriod''),
                               (''topPlayers'', JArr tp)])
              \<and> length tp \<le> 10"
proof (cases "read_prop ev ''competitors''")
  case (JArr xs)
  then have ok: "list_all (\<lambda>x. \<not> nullish x) (take 10 xs)"
    using assms(2) by simp
  obtain ys where "call_map top_entry (JArr (take 10 xs)) = Some (JArr ys)"
    and "length ys = length (take 10 xs)"
    using call_map_total [of "take 10 xs" top_entry, OF ok top_entry_total] by blast
  then show ?thesis using JArr assms(1)
    by (simp add: report_section_def get_eq truthy_not_nullish js_slice_nonneg js_or_def)
qed (use assms in \<open>simp_all add: report_section_def get_eq truthy_not_nullish js_or_def\<close>)

lemma full_report_sections:
  assumes "fetchJSON up (ESPN_BASE @ ''/pga/events'') = Some pgaEvents"
    and "fetchJSON up (ESPN_BASE @ ''/lpga/events'') = Some lpgaEvents"
    and "fetchJSON up (ESPN_BASE @ ''/pga/scoreboard'') = Some pgaScoreboard"
    and "get pgaEvents ''events'' = Some events"
    and "get lpgaEvents ''events'' = Some levents"
    and "league_calendar pgaScoreboard = Some calendar"
    and "entries_ok 5 calendar"
    and "report_section (opt_index events 0) = Some pga"
    and "report_section (opt_index levents 0) = Some lpga"
  shows "\<exists>ys. full_report up now
                 = Some (JObj [(''pga'', pga), (''lpga'', lpga), (''upcomingPGA'', JArr ys),
                               (''generatedAt'', JStr now)])
              \<and> length ys \<le> 5"
proof -
  obtain sliced ys where
    "(if nullish calendar then Some JUndefined else call_slice calendar 0 5) = Some sliced"
    and "call_map upcoming_entry (js_or sliced (JArr [])) = Some (JArr ys)"
    and "length ys \<le> 5"
    using report_schedule_total [OF assms(7)] by blast
  then show ?thesis
    using assms(1-6,8,9) by (simp add: full_report_def)
qed

lemma full_report_fetch_fails:
  assumes "fetchJSON up (ESPN_BASE @ ''/pga/events'') = None
           \<or> fetchJSON up (ESPN_BASE @ ''/lpga/events'') = None
           \<or> fetchJSON up (ESPN_BASE @ ''/pga/scoreboard'') = None"
  shows "full_report up now = None"
  using assms by (auto simp add: full_report_def split: bind_splits)

text \<open>
  C1 (as the code has it). When the events call succeeds with an empty event list, overview
  returns the message \<open>No active tournament\<close> with a timestamp, and pga-leaderboard,
  player-scorecard and lpga-leaderboard return an object with an \<open>error\<close> string; none
  of them throws. When the three calls of full-report succeed, both event lists are empty
  and the calendar is absent or a list without \<open>null\<close> among its first five entries,
  full-report returns \<open>pga\<close> and \<open>lpga\<close> as \<open>null\<close>.
\<close>

theorem no_tournament_responses:
  "(fetchJSON up (ESPN_BASE @ ''/pga/events'') = Some data
      \<and> get data ''events'' = Some (JArr [])
    \<longrightarrow> overview up now
          = Some (JObj [(''message'', JStr ''No active tournament''), (''fetchedAt'', JStr now)])
        \<and> pga_leaderboard up now input
          = Some (JObj [(''error'', JStr ''No active PGA tournament'')])
        \<and> player_scorecard up now playerId
          = Some (JObj [(''error'', JStr ''No active tournament'')]))
   \<and> (fetchJSON up (ESPN_BASE @ ''/lpga/events'') = Some ldata
      \<and> get ldata ''events'' = Some (JArr [])
    \<longrightarrow> lpga_leaderboard up now input
          = Some (JObj [(''error'', JStr ''No active LPGA tournament'')]))
   \<and> (fetchJSON up (ESPN_BASE @ ''/pga/events'') = Some data
      \<and> get data ''events'' = Some (JArr [])
      \<and> fetchJSON up (ESPN_BASE @ ''/lpga/events'') = Some ldata
      \<and> get ldata ''events'' = Some (JArr [])
      \<and> fetchJSON up (ESPN_BASE @ ''/pga/scoreboard'') = Some scoreboard
      \<and> league_calendar scoreboard = Some calendar
      \<and> entries_ok 5 calendar
    \<longrightarrow> (\<exists>ys. full_report up now
               = Some (JObj [(''pga'', JNull), (''lpga'', JNull), (''upcomingPGA'', JArr ys),
                             (''generatedAt'', JStr now)])))"
proof (intro conjI impI)
  assume a: "fetchJSON up (ESPN_BASE @ ''/pga/events'') = Some data
      \<and> get data ''events'' = Some (JArr [])"
  then show "overview up now
      = Some (JObj [(''message'', JStr ''No active tournament''), (''fetchedAt'', JStr now)])"
    using overview_no_event by blast
  from a show "pga_leaderboard up now input
      = Some (JObj [(''error'', JStr ''No active PGA tournament'')])"
    using pga_leaderboard_no_event by blast
  from a show "player_scorecard up now playerId
      = Some (JObj [(''error'', JStr ''No active tournament'')])"
    using player_scorecard_no_event by blast
next
  assume "fetchJSON up (ESPN_BASE @ ''/lpga/events'') = Some ldata
      \<and> get ldata ''events'' = Some (JArr [])"
  then show "lpga_leaderboard up now input
      = Some (JObj [(''error'', JStr ''No active LPGA tournament'')])"
    using lpga_leaderboard_no_event by blast
next
  assume a: "fetchJSON up (ESPN_BASE @ ''/pga/events'') = Some data
      \<and> get data ''events'' = Some (JArr [])
      \<and> fetchJSON up (ESPN_BASE @ ''/lpga/events'') = Some ldata
      \<and> get ldata ''events'' = Some (JArr [])
      \<and> fetchJSON up (ESPN_BASE @ ''/pga/scoreboard'') = Some scoreboard
      \<and> league_calendar scoreboard = Some calendar
      \<and> entries_ok 5 calendar"
  have n: "report_section (opt_index (JArr []) 0) = Some JNull"
    by (simp add: report_section_null opt_index_def)
  from a have f1: "fetchJSON up (ESPN_BASE @ ''/pga/events'') = Some data"
    and e1: "get data ''events'' = Some (JArr [])"
    and f2: "fetchJSON up (ESPN_BASE @ ''/lpga/events'') = Some ldata"
    and e2: "get ldata ''events'' = Some (JArr [])"
    and f3: "fetchJSON up (ESPN_BASE @ ''/pga/scoreboard'') = Some scoreboard"
    and lc: "league_calendar scoreboard = Some calendar"
    and ok: "entries_ok 5 calendar"
    by simp_all
  have "\<exists>ys. full_report up now
      = Some (JObj [(''pga'', JNull), (''lpga'', JNull), (''upcomingPGA'', JArr ys),
                    (''generatedAt'', JStr now)]) \<and> length ys \<le> 5"
    by (rule full_report_sections [OF f1 f2 f3 e1 e2 lc ok n n])
  then show "\<exists>ys. full_report up now
      = Some (JObj [(''pga'', JNull), (''lpga'', JNull), (''upcomingPGA'', JArr ys),
                    (''generatedAt'', JStr now)])"
    by blast
qed

theorem no_tournament_responses_witness:
  "fetchJSON quiet_upstream (ESPN_BASE @ ''/pga/events'') = Some (JObj [(''events'', JArr [])])
   \<and> get (JObj [(''events'', JArr [])]) ''events'' = Some (JArr [])
   \<and> fetchJSON quiet_upstream (ESPN_BASE @ ''/lpga/events'') = Some (JObj [(''events'', JArr [])])
   \<and> overview quiet_upstream demo_now
       = Some (JObj [(''message'', JStr ''No active tournament''), (''fetchedAt'', JStr demo_now)])
   \<and> pga_leaderboard quiet_upstream demo_now None
       = Some (JObj [(''error'', JStr ''No active PGA tournament'')])
   \<and> player_scorecard quiet_upstream demo_now ''569''
       = Some (JObj [(''error'', JStr ''No active tournament'')])
   \<and> lpga_leaderboard quiet_upstream demo_now None
       = Some (JObj [(''error'', JStr ''No active LPGA tournament'')])
   \<and> (\<exists>ys. full_report quiet_upstream demo_now
              = Some (JObj [(''pga'', JNull), (''lpga'', JNull), (''upcomingPGA'', JArr ys),
                            (''generatedAt'', JStr demo_now)]))"
proof -
  let ?d = "JObj [(''events'', JArr [])]"
  let ?s = "JObj [(''leagues'', JArr [JObj [(''calendar'', JArr demo_calendar)]]),
                  (''events'', JArr [])]"
  have f1: "fetchJSON quiet_upstream (ESPN_BASE @ ''/pga/events'') = Some ?d"
    by code_simp
  have e: "get ?d ''events'' = Some (JArr [])"
    by code_simp
  have f2: "fetchJSON quiet_upstream (ESPN_BASE @ ''/lpga/events'') = Some ?d"
    by code_simp
  have f3: "fetchJSON quiet_upstream (ESPN_BASE @ ''/pga/scoreboard'') = Some ?s"
    by code_simp
  have lc: "league_calendar ?s = Some (JArr demo_calendar)"
    by code_simp
  have ok: "entries_ok 5 (JArr demo_calendar)"
    by code_simp
  note t = no_tournament_responses [where up = quiet_upstream and now = demo_now
      and data = ?d and ldata = ?d and input = None and playerId = "''569''"
      and scoreboard = ?s and calendar = "JArr demo_calendar"]
  note t1 = t [THEN conjunct1, THEN mp, OF conjI [OF f1 e]]
  note t2 = t [THEN conjunct2, THEN conjunct1, THEN mp, OF conjI [OF f2 e]]
  note t3 = t [THEN conjunct2, THEN conjunct2, THEN mp,
      OF conjI [OF f1 conjI [OF e conjI [OF f2 conjI [OF e conjI [OF f3 conjI [OF lc ok]]]]]]]
  show ?thesis
    using f1 e f2 t1 t2 t3 by simp
qed

text \<open>
  C1 as stated fails for pga-schedule: the handler reads the calendar of the scoreboard
  response and no event list, so with every event list empty it returns the season and the
  calendar entries, and nothing that says there is no tournament.
\<close>

theorem no_tournament_responses_counterexample:
  "Option.bind (fetchJSON quiet_upstream (ESPN_BASE @ ''/pga/events'')) (\<lambda>d. get d ''events'')
     = Some (JArr [])
   \<and> Option.bind (fetchJSON quiet_upstream (ESPN_BASE @ ''/pga/scoreboard''))
        (\<lambda>d. get d ''events'')
     = Some (JArr [])
   \<and> pga_schedule quiet_upstream demo_now None
     = Some (JObj
         [(''season'', JUndefined),
          (''events'',
           JArr [JObj [(''id'', JStr ''401580329''), (''name'', JStr ''The Open''),
                       (''startDate'', JStr ''2025-07-17T04:00Z''),
                       (''endDate'', JStr ''2025-07-20T04:00Z'')],
                 JObj [(''id'', JStr ''401580330''), (''name'', JStr ''3M Open''),
                       (''startDate'', JStr ''2025-07-24T04:00Z''),
                       (''endDate'', JStr ''2025-07-27T04:00Z'')],
                 JObj [(''id'', JStr ''401580331''), (''name'', JStr ''Wyndham Championship''),
                       (''startDate'', JStr ''2025-07-31T04:00Z''),
                       (''endDate'', JStr ''2025-08-03T04:00Z'')]]),
          (''fetchedAt'', JStr ''2025-07-18T10:00:00.000Z'')])"
  by code_simp

section \<open>The aggregate report\<close>

text \<open>
  C6. If one of the three upstream calls of full-report fails, the handler fails and
  returns nothing. If the three calls succeed, the LPGA event list is empty and the PGA
  event list starts with an event (whose competitors, like the calendar, are absent or a
  list without \<open>null\<close> among the entries read), the output has \<open>lpga\<close> as \<open>null\<close>
  and \<open>pga\<close> as the summary of that event.
\<close>

theorem full_report_all_or_nothing:
  "(fetchJSON up (ESPN_BASE @ ''/pga/events'') = None
      \<or> fetchJSON up (ESPN_BASE @ ''/lpga/events'') = None
      \<or> fetchJSON up (ESPN_BASE @ ''/pga/scoreboard'') = None
    \<longrightarrow> full_report up now = None)
   \<and> (fetchJSON up (ESPN_BASE @ ''/pga/events'') = Some pgaEvents
      \<and> fetchJSON up (ESPN_BASE @ ''/lpga/events'') = Some lpgaEvents
      \<and> fetchJSON up (ESPN_BASE @ ''/pga/scoreboard'') = Some pgaScoreboard
      \<and> get pgaEvents ''events'' = Some (JArr (ev # rest))
      \<and> truthy ev
      \<and> entries_ok 10 (read_prop ev ''competitors'')
      \<and> get lpgaEvents ''events'' = Some (JArr [])
      \<and> league_calendar pgaScoreboard = Some calendar
      \<and> entries_ok 5 calendar
    \<longrightarrow> (\<exists>tp ys. full_report up now
               = Some (JObj [(''pga'',
                              JObj [(''tournament'', read_prop ev ''name''),
                                    (''status'',
                                     opt_get (opt_get (read_prop ev ''fullStatus'') ''type'')
                                       ''description''),
                                    (''round'',
                                     opt_get (read_prop ev ''fullStatus'') ''displayPeriod''),
                                    (''topPlayers'', JArr tp)]),
                             (''lpga'', JNull),
                             (''upcomingPGA'', JArr ys),
                             (''generatedAt'', JStr now)])))"
proof (intro conjI impI)
  assume "fetchJSON up (ESPN_BASE @ ''/pga/events'') = None
      \<or> fetchJSON up (ESPN_BASE @ ''/lpga/events'') = None
      \<or> fetchJSON up (ESPN_BASE @ ''/pga/scoreboard'') = None"
  then show "full_report up now = None" by (rule full_report_fetch_fails)
next
  assume a: "fetchJSON up (ESPN_BASE @ ''/pga/events'') = Some pgaEvents
      \<and> fetchJSON up (ESPN_BASE @ ''/lpga/events'') = Some lpgaEvents
      \<and> fetchJSON up (ESPN_BASE @ ''/pga/scoreboard'') = Some pgaScoreboard
      \<and> get pgaEvents ''events'' = Some (JArr (ev # rest))
      \<and> truthy ev
      \<and> entries_ok 10 (read_prop ev ''competitors'')
      \<and> get lpgaEvents ''events'' = Some (JArr [])
      \<and> league_calendar pgaScoreboard = Some calendar
      \<and> entries_ok 5 calendar"
  then have f1: "fetchJSON up (ESPN_BASE @ ''/pga/events'') = Some pgaEvents"
    and f2: "fetchJSON up (ESPN_BASE @ ''/lpga/events'') = Some lpgaEvents"
    and f3: "fetchJSON up (ESPN_BASE @ ''/pga/scoreboard'') = Some pgaScoreboard"
    and e1: "get pgaEvents ''events'' = Some (JArr (ev # rest))"
    and t: "truthy ev"
    and c: "entries_ok 10 (read_prop ev ''competitors'')"
    and e2: "get lpgaEvents ''events'' = Some (JArr [])"
    and lc: "league_calendar pgaScoreboard = Some calendar"
    and ok: "entries_ok 5 calendar"
    by simp_all
  let ?sec = "\<lambda>tp. JObj [(''tournament'', read_prop ev ''name''),
                        (''status'',
                         opt_get (opt_get (read_prop ev ''fullStatus'') ''type'') ''description''),
                        (''round'', opt_get (read_prop ev ''fullStatus'') ''displayPeriod''),
                        (''topPlayers'', JArr tp)]"
  obtain tp where "report_section ev = Some (?sec tp)"
    using report_section_total [OF t c] by blast
  then have p: "report_section (opt_index (JArr (ev # rest)) 0) = Some (?sec tp)"
    by (simp add: opt_index_def)
  have l: "report_section (opt_index (JArr []) 0) = Some JNull"
    by (simp add: report_section_null opt_index_def)
  obtain ys where "full_report up now
      = Some (JObj [(''pga'', ?sec tp), (''lpga'', JNull), (''upcomingPGA'', JArr ys),
                    (''generatedAt'', JStr now)])"
    using full_report_sections [OF f1 f2 f3 e1 e2 lc ok p l] by blast
  then show "\<exists>tp ys. full_report up now
      = Some (JObj [(''pga'', ?sec tp), (''lpga'', JNull), (''upcomingPGA'', JArr ys),
                    (''generatedAt'', JStr now)])"
    by blast
qed

theorem full_report_all_or_nothing_witness:
  "fetchJSON broken_upstream (ESPN_BASE @ ''/pga/scoreboard'') = None
   \<and> full_report broken_upstream demo_now = None
   \<and> fetchJSON pga_only_upstream (ESPN_BASE @ ''/pga/events'')
       = Some (JObj [(''events'', JArr [demo_pga_event])])
   \<and> fetchJSON pga_only_upstream (ESPN_BASE @ ''/lpga/events'')
       = Some (JObj [(''events'', JArr [])])
   \<and> fetchJSON pga_only_upstream (ESPN_BASE @ ''/pga/scoreboard'') = Some demo_scoreboard
   \<and> truthy demo_pga_event
   \<and> (\<exists>tp ys. full_report pga_only_upstream demo_now
          = Some (JObj [(''pga'',
                         JObj [(''tournament'', read_prop demo_pga_event ''name''),
                               (''status'',
                                opt_get (opt_get (read_prop demo_pga_event ''fullStatus'') ''type'')
                                  ''description''),
                               (''round'',
                                opt_get (read_prop demo_pga_event ''fullStatus'')
                                  ''displayPeriod''),
                               (''topPlayers'', JArr tp)]),
                        (''lpga'', JNull),
                        (''upcomingPGA'', JArr ys),
                        (''generatedAt'', JStr demo_now)]))"
proof -
  let ?p = "JObj [(''events'', JArr [demo_pga_event])]"
  let ?l = "JObj [(''events'', JArr [])]"
  have b: "fetchJSON broken_upstream (ESPN_BASE @ ''/pga/scoreboard'') = None"
    by code_simp
  have f1: "fetchJSON pga_only_upstream (ESPN_BASE @ ''/pga/events'') = Some ?p"
    by code_simp
  have f2: "fetchJSON pga_only_upstream (ESPN_BASE @ ''/lpga/events'') = Some ?l"
    by code_simp
  have f3: "fetchJSON pga_only_upstream (ESPN_BASE @ ''/pga/scoreboard'') = Some demo_scoreboard"
    by code_simp
  have e1: "get ?p ''events'' = Some (JArr (demo_pga_event # []))"
    by code_simp
  have t: "truthy demo_pga_event"
    by code_simp
  have c: "entries_ok 10 (read_prop demo_pga_event ''competitors'')"
    by code_simp
  have e2: "get ?l ''events'' = Some (JArr [])"
    by code_simp
  have lc: "league_calendar demo_scoreboard = Some (JArr demo_calendar)"
    by code_simp
  have ok: "entries_ok 5 (JArr demo_calendar)"
    by code_simp
  note n = full_report_all_or_nothing [where up = broken_upstream and now = demo_now,
      THEN conjunct1, THEN mp, OF disjI2, OF disjI2, OF b]
  note s = full_report_all_or_nothing [where up = pga_only_upstream and now = demo_now,
      THEN conjunct2, THEN mp,
      OF conjI [OF f1 conjI [OF f2 conjI [OF f3 conjI [OF e1 conjI [OF t conjI [OF c
           conjI [OF e2 conjI [OF lc ok]]]]]]]]]
  show ?thesis
    using b n f1 f2 f3 t s by simp
qed

section \<open>The rows of the lists\<close>

lemma js_slice_prefix: "\<exists>k. js_slice xs 0 e = take k xs"
proof (cases "0 \<le> e")
  case True
  then show ?thesis by (auto simp add: js_slice_nonneg)
next
  case False
  then show ?thesis
    by (cases "e \<le> - 1") (auto simp add: js_slice_neg js_slice_fraction)
qed

lemma overview_entry_fields:
  assumes "overview_entry c i = Some e"
  shows "read_prop e ''position'' = JNum (int i + 1)
       \<and> read_prop e ''name'' = read_prop c ''displayName''
       \<and> read_prop e ''score'' = read_prop c ''score''"
  using assms by (auto simp add: overview_entry_def get_def split: bind_splits if_splits)

lemma overview_entry_total:
  assumes "overview_row_ok c"
  shows "\<exists>y. overview_entry c i = Some y"
proof (cases "read_prop c ''shortName''")
  case (JStr s)
  then show ?thesis using assms by (simp add: overview_row_ok_def overview_entry_def get_eq)
qed (use assms in \<open>simp_all add: overview_row_ok_def overview_entry_def get_eq\<close>)

lemma pga_entry_fields:
  assumes "pga_entry c i = Some e"
  shows "read_prop e ''position'' = JNum (int i + 1)
       \<and> read_prop e ''playerId'' = read_prop c ''id''
       \<and> read_prop e ''score'' = read_prop c ''score''"
  using assms by (auto simp add: pga_entry_def get_def Let_def split: bind_splits if_splits)

lemma pga_entry_total: "\<not> nullish c \<Longrightarrow> \<exists>y. pga_entry c i = Some y"
  by (simp add: pga_entry_def get_eq)

lemma lpga_entry_fields:
  assumes "lpga_entry c i = Some e"
  shows "read_prop e ''position'' = JNum (int i + 1)
       \<and> read_prop e ''name'' = read_prop c ''displayName''
       \<and> read_prop e ''score'' = read_prop c ''score''"
  using assms by (auto simp add: lpga_entry_def get_def split: bind_splits if_splits)

lemma split_part_string: "nullish (elem (JArr (map JStr ss)) k) \<or> (\<exists>s. elem (JArr (map JStr ss)) k = JStr s)"
  by simp

lemma logo_country_total:
  assumes "lpga_row_ok c"
  shows "\<exists>y. logo_country c = Some y"
proof (cases "read_prop c ''logo''")
  case (JStr s)
  let ?code = "elem (JArr (map JStr (split_js s ''/countries/500/''))) 1"
  have "nullish ?code \<or> (\<exists>t. ?code = JStr t)" by (rule split_part_string)
  then show ?thesis
  proof
    assume "nullish ?code"
    then show ?thesis using JStr assms
      by (simp add: lpga_row_ok_def logo_country_def get_eq)
  next
    assume "\<exists>t. ?code = JStr t"
    then obtain t where "?code = JStr t" ..
    then show ?thesis using JStr assms
      by (simp add: lpga_row_ok_def logo_country_def get_eq)
  qed
qed (use assms in \<open>simp_all add: lpga_row_ok_def logo_country_def get_eq\<close>)

lemma lpga_entry_total:
  assumes "lpga_row_ok c"
  shows "\<exists>y. lpga_entry c i = Some y"
proof -
  obtain v where "logo_country c = Some v" using logo_country_total [OF assms] ..
  moreover have "\<not> nullish c" using assms by (simp add: lpga_row_ok_def)
  ultimately show ?thesis by (simp add: lpga_entry_def get_eq)
qed

lemma top_entry_fields:
  assumes "top_entry c i = Some e"
  shows "read_prop e ''position'' = JNum (int i + 1)
       \<and> read_prop e ''name'' = read_prop c ''displayName''
       \<and> read_prop e ''score'' = read_prop c ''score''"
  using assms by (auto simp add: top_entry_def get_def split: bind_splits if_splits)

lemma schedule_entry_total: "\<not> nullish e \<Longrightarrow> \<exists>y. schedule_entry e i = Some y"
  by (simp add: schedule_entry_def get_eq)

lemma hint_entry_eq:
  "\<not> nullish c \<Longrightarrow>
   hint_entry c i = Some (JObj [(''id'', read_prop c ''id''),
                                (''name'', opt_get (read_prop c ''athlete'') ''displayName'')])"
  by (simp add: hint_entry_def get_eq)

lemma hole_entry_total: "\<not> nullish h \<Longrightarrow> \<exists>y. hole_entry h i = Some y"
  by (simp add: hole_entry_def get_eq)

lemma round_entry_total:
  assumes "round_ok r"
  shows "\<exists>y. round_entry r i = Some y"
proof (cases "read_prop r ''linescores''")
  case (JArr hs)
  then have "list_all (\<lambda>h. \<not> nullish h) hs" using assms by (simp add: round_ok_def)
  then obtain ys where "call_map hole_entry (JArr hs) = Some (JArr ys)"
    using call_map_total [of hs hole_entry, OF _ hole_entry_total] by blast
  then show ?thesis using JArr assms by (simp add: round_ok_def round_entry_def get_eq)
qed (use assms in \<open>simp_all add: round_ok_def round_entry_def get_eq\<close>)

lemma map_js_total_all:
  assumes "list_all good xs" and "\<And>c i. good c \<Longrightarrow> \<exists>y. f c i = Some y"
  shows "\<exists>ys. map_js f xs 0 = Some ys"
  using assms by (intro map_js_total) (simp add: list_all_iff)

lemma tournament_info_total: "truthy event \<Longrightarrow> \<exists>t. tournament_info event = Some t"
  by (simp add: tournament_info_def get_eq truthy_not_nullish)

section \<open>The handlers on an upstream with an event\<close>

text \<open>
  Once the upstream responses are named, each handler is one \<open>map\<close> over a slice of
  the upstream list, wrapped into the output object.
\<close>

lemma overview_unfold:
  assumes "fetchJSON up (ESPN_BASE @ ''/pga/events'') = Some data"
    and "get data ''events'' = Some (JArr (event # rest))"
    and "truthy event"
    and "read_prop event ''competitors'' = JArr cs"
  shows "\<exists>tournament status round.
           overview up now
             = map_option (\<lambda>lb. JObj [(''tournament'', tournament),
                                       (''status'', status),
                                       (''round'', round),
                                       (''leaderboard'', JArr lb),
                                       (''fetchedAt'', JStr now),
                                       (''dataSource'', JStr ''ESPN Golf API (live)'')])
                 (map_js overview_entry (take 10 cs) 0)"
  using assms
  by (cases "map_js overview_entry (take 10 cs) 0")
    (simp_all add: overview_def opt_index_def get_eq truthy_not_nullish js_slice_nonneg
      js_or_def)

lemma pga_leaderboard_unfold:
  assumes "fetchJSON up (ESPN_BASE @ ''/pga/events'') = Some data"
    and "get data ''events'' = Some (JArr (event # rest))"
    and "truthy event"
    and "fetchJSON up (ESPN_BASE @ ''/pga/scoreboard?event='' @ to_string (read_prop event ''id''))
           = Some scoreboard"
    and "scoreboard_competitors scoreboard = Some (JArr cs)"
  shows "\<exists>tournament.
           pga_leaderboard up now input
             = map_option (\<lambda>lb. JObj [(''tournament'', tournament),
                                       (''leaderboard'', JArr lb),
                                       (''totalPlayers'', JNum (int (length cs))),
                                       (''fetchedAt'', JStr now)])
                 (map_js pga_entry (js_slice cs 0 (limit_input 50 input)) 0)"
proof -
  obtain t where "tournament_info event = Some t"
    using tournament_info_total [OF assms(3)] ..
  then show ?thesis using assms
    by (cases "map_js pga_entry (js_slice cs 0 (limit_input 50 input)) 0")
      (simp_all add: pga_leaderboard_def opt_index_def get_eq truthy_not_nullish)
qed

lemma lpga_leaderboard_unfold:
  assumes "fetchJSON up (ESPN_BASE @ ''/lpga/events'') = Some data"
    and "get data ''events'' = Some (JArr (event # rest))"
    and "truthy event"
    and "read_prop event ''competitors'' = JArr cs"
  shows "\<exists>tournament.
           lpga_leaderboard up now input
             = map_option (\<lambda>lb. JObj [(''tournament'', tournament),
                                       (''leaderboard'', JArr lb),
                                       (''fetchedAt'', JStr now)])
                 (map_js lpga_entry (js_slice cs 0 (limit_input 30 input)) 0)"
proof -
  obtain t where "tournament_info event = Some t"
    using tournament_info_total [OF assms(3)] ..
  then show ?thesis using assms
    by (cases "map_js lpga_entry (js_slice cs 0 (limit_input 30 input)) 0")
      (simp_all add: lpga_leaderboard_def opt_index_def get_eq truthy_not_nullish js_or_def)
qed

lemma pga_schedule_unfold:
  assumes "fetchJSON up (ESPN_BASE @ ''/pga/scoreboard'') = Some data"
    and "league_calendar data = Some (JArr es)"
  shows "\<exists>season.
           pga_schedule up now input
             = map_option (\<lambda>evs. JObj [(''season'', season),
                                        (''events'', JArr evs),
                                        (''fetchedAt'', JStr now)])
                 (map_js schedule_entry (js_slice es 0 (limit_input 10 input)) 0)"
proof -
  have "\<not> nullish data"
    using assms(2) by (auto simp add: league_calendar_def get_def split: if_splits)
  then show ?thesis using assms
    by (cases "map_js schedule_entry (js_slice es 0 (limit_input 10 input)) 0")
      (simp_all add: pga_schedule_def get_eq js_or_def)
qed

lemma analytics_transactions_unfold:
  assumes "tracker_of ag = Some tracker"
    and "getAllTransactions lib tracker windowMs = Some txs"
  shows "analytics_transactions lib ag windowMs input
           = Some (JObj [(''transactions'', JArr (js_slice txs 0 (limit_input 50 input)))])"
  using assms by (simp add: analytics_transactions_def)

lemma report_section_unfold:
  assumes "truthy ev" and "read_prop ev ''competitors'' = JArr cs"
  shows "\<exists>tournament status round.
           report_section ev
             = map_option (\<lambda>tp. JObj [(''tournament'', tournament),
                                       (''status'', status),
                                       (''round'', round),
                                       (''topPlayers'', JArr tp)])
                 (map_js top_entry (take 10 cs) 0)"
  using assms
  by (cases "map_js top_entry (take 10 cs) 0")
    (simp_all add: report_section_def get_eq truthy_not_nullish js_slice_nonneg js_or_def)

lemma full_report_pga:
  assumes "full_report up now = Some out"
    and "fetchJSON up (ESPN_BASE @ ''/pga/events'') = Some pgaEvents"
    and "get pgaEvents ''events'' = Some events"
  shows "report_section (opt_index events 0) = Some (read_prop out ''pga'')"
  using assms by (auto simp add: full_report_def split: bind_splits)

lemma full_report_lpga:
  assumes "full_report up now = Some out"
    and "fetchJSON up (ESPN_BASE @ ''/lpga/events'') = Some lpgaEvents"
    and "get lpgaEvents ''events'' = Some levents"
  shows "report_section (opt_index levents 0) = Some (read_prop out ''lpga'')"
  using assms by (auto simp add: full_report_def split: bind_splits)

section \<open>Sizes of the leaderboards\<close>

text \<open>
  C8. For an upstream event with a competitor list of any length (whose first ten entries
  are not \<open>null\<close> and have a \<open>shortName\<close> that is absent or a string), the overview
  handler returns at most ten leaderboard entries, and entry \<open>i\<close> (from 0) holds position
  \<open>i + 1\<close> and the name and score of competitor \<open>i\<close> of the upstream list.
\<close>

theorem overview_top_ten:
  assumes "fetchJSON up (ESPN_BASE @ ''/pga/events'') = Some data"
    and "get data ''events'' = Some (JArr (event # rest))"
    and "truthy event"
    and "read_prop event ''competitors'' = JArr cs"
    and "list_all overview_row_ok (take 10 cs)"
  shows "\<exists>out lb. overview up now = Some out
           \<and> read_prop out ''leaderboard'' = JArr lb
           \<and> length lb \<le> 10
           \<and> length lb = min 10 (length cs)
           \<and> (\<forall>i<length lb.
                  read_prop (lb ! i) ''position'' = JNum (int i + 1)
                \<and> read_prop (lb ! i) ''name'' = read_prop (cs ! i) ''displayName''
                \<and> read_prop (lb ! i) ''score'' = read_prop (cs ! i) ''score'')"
proof -
  obtain lb where lb: "map_js overview_entry (take 10 cs) 0 = Some lb"
    using map_js_total_all [where f = overview_entry, OF assms(5) overview_entry_total] by blast
  have len: "length lb = min 10 (length cs)"
    using map_js_length [OF lb] by (simp add: min.commute)
  have rows: "overview_entry (cs ! i) i = Some (lb ! i)" if "i < length lb" for i
    using map_js_nth [OF lb, of i] that len by simp
  obtain tournament status round where
    "overview up now
       = map_option (\<lambda>lb. JObj [(''tournament'', tournament), (''status'', status),
                                 (''round'', round), (''leaderboard'', JArr lb),
                                 (''fetchedAt'', JStr now),
                                 (''dataSource'', JStr ''ESPN Golf API (live)'')])
           (map_js overview_entry (take 10 cs) 0)"
    using overview_unfold [OF assms(1-4)] by blast
  then have out: "overview up now
       = Some (JObj [(''tournament'', tournament), (''status'', status),
                     (''round'', round), (''leaderboard'', JArr lb),
                     (''fetchedAt'', JStr now),
                     (''dataSource'', JStr ''ESPN Golf API (live)'')])"
    using lb by simp
  show ?thesis
  proof (intro exI conjI allI impI)
    show "overview up now
       = Some (JObj [(''tournament'', tournament), (''status'', status),
                     (''round'', round), (''leaderboard'', JArr lb),
                     (''fetchedAt'', JStr now),
                     (''dataSource'', JStr ''ESPN Golf API (live)'')])"
      by (rule out)
    show "read_prop (JObj [(''tournament'', tournament), (''status'', status),
                     (''round'', round), (''leaderboard'', JArr lb),
                     (''fetchedAt'', JStr now),
                     (''dataSource'', JStr ''ESPN Golf API (live)'')]) ''leaderboard'' = JArr lb"
      by simp
    show "length lb \<le> 10" using len by simp
    show "length lb = min 10 (length cs)" by (rule len)
  next
    fix i assume "i < length lb"
    then have r: "overview_entry (cs ! i) i = Some (lb ! i)" by (rule rows)
    show "read_prop (lb ! i) ''position'' = JNum (int i + 1)"
      using overview_entry_fields [OF r] by simp
    show "read_prop (lb ! i) ''name'' = read_prop (cs ! i) ''displayName''"
      using overview_entry_fields [OF r] by simp
    show "read_prop (lb ! i) ''score'' = read_prop (cs ! i) ''score''"
      using overview_entry_fields [OF r] by simp
  qed
qed

theorem overview_top_ten_witness:
  "fetchJSON demo_upstream (ESPN_BASE @ ''/pga/events'')
     = Some (JObj [(''events'', JArr [demo_pga_event])])
   \<and> truthy demo_pga_event
   \<and> read_prop demo_pga_event ''competitors'' = JArr [rose, smith, doe]
   \<and> list_all overview_row_ok (take 10 [rose, smith, doe])
   \<and> (\<exists>out lb. overview demo_upstream demo_now = Some out
           \<and> read_prop out ''leaderboard'' = JArr lb
           \<and> length lb \<le> 10
           \<and> length lb = min 10 (length [rose, smith, doe])
           \<and> (\<forall>i<length lb.
                  read_prop (lb ! i) ''position'' = JNum (int i + 1)
                \<and> read_prop (lb ! i) ''name'' = read_prop ([rose, smith, doe] ! i) ''displayName''
                \<and> read_prop (lb ! i) ''score'' = read_prop ([rose, smith, doe] ! i) ''score''))"
proof -
  let ?d = "JObj [(''events'', JArr [demo_pga_event])]"
  have f: "fetchJSON demo_upstream (ESPN_BASE @ ''/pga/events'') = Some ?d"
    by code_simp
  have e: "get ?d ''events'' = Some (JArr (demo_pga_event # []))"
    by code_simp
  have t: "truthy demo_pga_event"
    by code_simp
  have c: "read_prop demo_pga_event ''competitors'' = JArr [rose, smith, doe]"
    by code_simp
  have w: "list_all overview_row_ok (take 10 [rose, smith, doe])"
    by code_simp
  show ?thesis
    by (intro conjI f t c w overview_top_ten [OF f e t c w, of demo_now])
qed

text \<open>
  C4 (as the code has it). For the pga-leaderboard handler with a limit \<open>n \<ge> 0\<close> against
  a scoreboard with \<open>m\<close> competitors (none of those read being \<open>null\<close>), the
  leaderboard has exactly \<open>min \<lfloor>n\<rfloor> m\<close> entries, the limit being cut to its integer
  part, and \<open>totalPlayers\<close> is \<open>m\<close>. For an integer \<open>n\<close> that is \<open>min n m\<close>: a limit
  beyond \<open>m\<close> returns all the competitors and nothing more.
\<close>

theorem pga_leaderboard_limit:
  assumes "fetchJSON up (ESPN_BASE @ ''/pga/events'') = Some data"
    and "get data ''events'' = Some (JArr (event # rest))"
    and "truthy event"
    and "fetchJSON up (ESPN_BASE @ ''/pga/scoreboard?event='' @ to_string (read_prop event ''id''))
           = Some scoreboard"
    and "scoreboard_competitors scoreboard = Some (JArr cs)"
    and "0 \<le> n"
    and "list_all (\<lambda>c. \<not> nullish c) (take (nat \<lfloor>n\<rfloor>) cs)"
  shows "\<exists>out lb. pga_leaderboard up now (Some n) = Some out
           \<and> read_prop out ''leaderboard'' = JArr lb
           \<and> length lb = min (nat \<lfloor>n\<rfloor>) (length cs)
           \<and> (n \<in> \<int> \<longrightarrow> rat_of_nat (length lb) = min n (rat_of_nat (length cs)))
           \<and> read_prop out ''totalPlayers'' = JNum (int (length cs))"
proof -
  have sl: "js_slice cs 0 (limit_input 50 (Some n)) = take (nat \<lfloor>n\<rfloor>) cs"
    using assms(6) by (simp add: limit_input_def js_slice_nonneg)
  obtain lb where lb: "map_js pga_entry (take (nat \<lfloor>n\<rfloor>) cs) 0 = Some lb"
    using map_js_total_all [where f = pga_entry, OF assms(7) pga_entry_total] by blast
  have len: "length lb = min (nat \<lfloor>n\<rfloor>) (length cs)"
    using map_js_length [OF lb] by (simp add: min.commute)
  have whole: "rat_of_nat (length lb) = min n (rat_of_nat (length cs))" if "n \<in> \<int>"
  proof -
    from that obtain k where k: "n = rat_of_int k" by (auto elim: Ints_cases)
    then have "0 \<le> k" using assms(6) by simp
    then have "n = rat_of_nat (nat k)" using k by simp
    moreover have "nat \<lfloor>n\<rfloor> = nat k" using k by simp
    ultimately show ?thesis using len by (simp add: min_def)
  qed
  obtain tournament where
    "pga_leaderboard up now (Some n)
       = map_option (\<lambda>lb. JObj [(''tournament'', tournament), (''leaderboard'', JArr lb),
                                 (''totalPlayers'', JNum (int (length cs))),
                                 (''fetchedAt'', JStr now)])
           (map_js pga_entry (js_slice cs 0 (limit_input 50 (Some n))) 0)"
    using pga_leaderboard_unfold [OF assms(1-5)] by blast
  then have "pga_leaderboard up now (Some n)
       = Some (JObj [(''tournament'', tournament), (''leaderboard'', JArr lb),
                     (''totalPlayers'', JNum (int (length cs))),
                     (''fetchedAt'', JStr now)])"
    using lb sl by simp
  then show ?thesis using len whole by simp
qed

theorem pga_leaderboard_limit_witness:
  "fetchJSON demo_upstream (ESPN_BASE @ ''/pga/events'')
     = Some (JObj [(''events'', JArr [demo_pga_event])])
   \<and> fetchJSON demo_upstream
       (ESPN_BASE @ ''/pga/scoreboard?event='' @ to_string (read_prop demo_pga_event ''id''))
     = Some demo_scoreboard
   \<and> scoreboard_competitors demo_scoreboard = Some (JArr [rose, smith, doe])
   \<and> (\<exists>out lb. pga_leaderboard demo_upstream demo_now (Some 2) = Some out
         \<and> read_prop out ''leaderboard'' = JArr lb
         \<and> length lb = 2
         \<and> read_prop out ''totalPlayers'' = JNum 3)
   \<and> (\<exists>out lb. pga_leaderboard demo_upstream demo_now (Some 100) = Some out
         \<and> read_prop out ''leaderboard'' = JArr lb
         \<and> length lb = 3
         \<and> read_prop out ''totalPlayers'' = JNum 3)
   \<and> (\<exists>out lb. pga_leaderboard demo_upstream demo_now (Some (5 / 2)) = Some out
         \<and> read_prop out ''leaderboard'' = JArr lb
         \<and> length lb = 2
         \<and> read_prop out ''totalPlayers'' = JNum 3)"
proof -
  let ?d = "JObj [(''events'', JArr [demo_pga_event])]"
  have f: "fetchJSON demo_upstream (ESPN_BASE @ ''/pga/events'') = Some ?d"
    by code_simp
  have e: "get ?d ''events'' = Some (JArr (demo_pga_event # []))"
    by code_simp
  have t: "truthy demo_pga_event"
    by code_simp
  have s: "fetchJSON demo_upstream
       (ESPN_BASE @ ''/pga/scoreboard?event='' @ to_string (read_prop demo_pga_event ''id''))
     = Some demo_scoreboard"
    by code_simp
  have sc: "scoreboard_competitors demo_scoreboard = Some (JArr [rose, smith, doe])"
    by code_simp
  have w2: "list_all (\<lambda>c. \<not> nullish c) (take (nat \<lfloor>2 :: rat\<rfloor>) [rose, smith, doe])"
    by (simp add: rose_def smith_def)
  have w100: "list_all (\<lambda>c. \<not> nullish c) (take (nat \<lfloor>100 :: rat\<rfloor>) [rose, smith, doe])"
    by (simp add: rose_def smith_def doe_def)
  have f52: "\<lfloor>5 / 2 :: rat\<rfloor> = 2" by code_simp
  have w52: "list_all (\<lambda>c. \<not> nullish c) (take (nat \<lfloor>5 / 2 :: rat\<rfloor>) [rose, smith, doe])"
    unfolding f52 by (simp add: rose_def smith_def)
  have n2: "(0::rat) \<le> 2" and n100: "(0::rat) \<le> 100" and n52: "(0::rat) \<le> 5 / 2"
    by simp_all
  have a2: "\<exists>out lb. pga_leaderboard demo_upstream demo_now (Some 2) = Some out
         \<and> read_prop out ''leaderboard'' = JArr lb
         \<and> length lb = 2
         \<and> read_prop out ''totalPlayers'' = JNum 3"
    using pga_leaderboard_limit [OF f e t s sc n2 w2, of demo_now]
    by (auto simp add: numeral_2_eq_2)
  have a100: "\<exists>out lb. pga_leaderboard demo_upstream demo_now (Some 100) = Some out
         \<and> read_prop out ''leaderboard'' = JArr lb
         \<and> length lb = 3
         \<and> read_prop out ''totalPlayers'' = JNum 3"
    using pga_leaderboard_limit [OF f e t s sc n100 w100, of demo_now]
    by (auto simp add: numeral_3_eq_3)
  have a52: "\<exists>out lb. pga_leaderboard demo_upstream demo_now (Some (5 / 2)) = Some out
         \<and> read_prop out ''leaderboard'' = JArr lb
         \<and> length lb = 2
         \<and> read_prop out ''totalPlayers'' = JNum 3"
    using pga_leaderboard_limit [OF f e t s sc n52 w52, of demo_now] unfolding f52
    by (auto simp add: numeral_2_eq_2)
  show ?thesis
    by (intro conjI f s sc a2 a100 a52)
qed

text \<open>
  C4 as stated fails: the schema takes any number as the limit, and with the limit \<open>2.5\<close>
  against three competitors the leaderboard has two rows, which is not \<open>min 2.5 3\<close>.
\<close>

theorem pga_leaderboard_limit_counterexample:
  "scoreboard_competitors demo_scoreboard = Some (JArr [rose, smith, doe])
   \<and> pga_leaderboard demo_upstream demo_now (Some (5 / 2))
     = Some (JObj
         [(''tournament'',
           JObj [(''id'', JStr ''401580329''), (''name'', JStr ''The Open''),
                 (''status'', JStr ''In Progress''), (''round'', JStr ''Round 2''),
                 (''date'', JStr ''2025-07-17T04:00Z'')]),
          (''leaderboard'',
           JArr [JObj [(''position'', JNum 1), (''playerId'', JStr ''569''),
                       (''name'', JStr ''Justin Rose''), (''score'', JStr ''-7''),
                       (''country'', JStr ''England''), (''thru'', JNum 14)],
                 JObj [(''position'', JNum 2), (''playerId'', JStr ''9478''),
                       (''name'', JStr ''Cameron Smith''), (''score'', JStr ''-5''),
                       (''country'', JStr ''Unknown''), (''thru'', JStr ''F'')]]),
          (''totalPlayers'', JNum 3),
          (''fetchedAt'', JStr ''2025-07-18T10:00:00.000Z'')])
   \<and> (2 :: rat) \<noteq> min (5 / 2) 3"
  by code_simp

section \<open>Lists mapped from a slice\<close>

lemma mapped_take_rows:
  assumes "H = map_option F (map_js f (take k xs) 0)" and "H = Some out"
  shows "\<exists>lb. out = F lb \<and> length lb = min k (length xs)
              \<and> (\<forall>i<length lb. f (xs ! i) i = Some (lb ! i))"
proof -
  from assms have "map_option F (map_js f (take k xs) 0) = Some out" by simp
  then obtain lb where lb: "map_js f (take k xs) 0 = Some lb" and out: "out = F lb"
    by (cases "map_js f (take k xs) 0") auto
  have len: "length lb = min k (length xs)"
    using map_js_length [OF lb] by (simp add: min.commute)
  have "f (xs ! i) i = Some (lb ! i)" if "i < length lb" for i
    using map_js_nth [OF lb, of i] that len by simp
  with out len show ?thesis by blast
qed

lemma mapped_take_total:
  assumes "H = map_option F (map_js f (take k xs) 0)"
    and "list_all good (take k xs)"
    and "\<And>c i. good c \<Longrightarrow> \<exists>y. f c i = Some y"
  shows "\<exists>lb. H = Some (F lb) \<and> length lb = min k (length xs)
              \<and> (\<forall>i<length lb. f (xs ! i) i = Some (lb ! i))"
proof -
  obtain lb where lb: "map_js f (take k xs) 0 = Some lb"
    using map_js_total_all [where f = f, OF assms(2,3)] by blast
  then have "H = Some (F lb)" using assms(1) by simp
  from mapped_take_rows [OF assms(1) this] show ?thesis
    using \<open>H = Some (F lb)\<close> by auto
qed

section \<open>Negative limits\<close>

lemma pga_leaderboard_negative:
  assumes "fetchJSON up (ESPN_BASE @ ''/pga/events'') = Some data"
    and "get data ''events'' = Some (JArr (event # rest))"
    and "truthy event"
    and "fetchJSON up (ESPN_BASE @ ''/pga/scoreboard?event='' @ to_string (read_prop event ''id''))
           = Some scoreboard"
    and "scoreboard_competitors scoreboard = Some (JArr cs)"
    and "n \<le> - 1"
    and "list_all (\<lambda>c. \<not> nullish c) (take (length cs - nat \<lfloor>- n\<rfloor>) cs)"
  shows "\<exists>out lb. pga_leaderboard up now (Some n) = Some out
           \<and> read_prop out ''leaderboard'' = JArr lb
           \<and> length lb = length cs - nat \<lfloor>- n\<rfloor>
           \<and> (\<forall>i<length lb. pga_entry (cs ! i) i = Some (lb ! i))"
proof -
  obtain tournament where
    "pga_leaderboard up now (Some n)
       = map_option (\<lambda>lb. JObj [(''tournament'', tournament), (''leaderboard'', JArr lb),
                                 (''totalPlayers'', JNum (int (length cs))),
                                 (''fetchedAt'', JStr now)])
           (map_js pga_entry (js_slice cs 0 (limit_input 50 (Some n))) 0)"
    using pga_leaderboard_unfold [OF assms(1-5)] by blast
  then have "pga_leaderboard up now (Some n)
       = map_option (\<lambda>lb. JObj [(''tournament'', tournament), (''leaderboard'', JArr lb),
                                 (''totalPlayers'', JNum (int (length cs))),
                                 (''fetchedAt'', JStr now)])
           (map_js pga_entry (take (length cs - nat \<lfloor>- n\<rfloor>) cs) 0)"
    using assms(6) by (simp add: limit_input_def js_slice_neg)
  from mapped_take_total [OF this assms(7) pga_entry_total] show ?thesis
    by auto
qed

lemma pga_schedule_negative:
  assumes "fetchJSON up (ESPN_BASE @ ''/pga/scoreboard'') = Some data"
    and "league_calendar data = Some (JArr es)"
    and "n \<le> - 1"
    and "list_all (\<lambda>c. \<not> nullish c) (take (length es - nat \<lfloor>- n\<rfloor>) es)"
  shows "\<exists>out evs. pga_schedule up now (Some n) = Some out
           \<and> read_prop out ''events'' = JArr evs
           \<and> length evs = length es - nat \<lfloor>- n\<rfloor>
           \<and> (\<forall>i<length evs. schedule_entry (es ! i) i = Some (evs ! i))"
proof -
  obtain season where
    "pga_schedule up now (Some n)
       = map_option (\<lambda>evs. JObj [(''season'', season), (''events'', JArr evs),
                                  (''fetchedAt'', JStr now)])
           (map_js schedule_entry (js_slice es 0 (limit_input 10 (Some n))) 0)"
    using pga_schedule_unfold [OF assms(1,2)] by blast
  then have "pga_schedule up now (Some n)
       = map_option (\<lambda>evs. JObj [(''season'', season), (''events'', JArr evs),
                                  (''fetchedAt'', JStr now)])
           (map_js schedule_entry (take (length es - nat \<lfloor>- n\<rfloor>) es) 0)"
    using assms(3) by (simp add: limit_input_def js_slice_neg)
  from mapped_take_total [OF this assms(4) schedule_entry_total] show ?thesis
    by auto
qed

lemma lpga_leaderboard_negative:
  assumes "fetchJSON up (ESPN_BASE @ ''/lpga/events'') = Some data"
    and "get data ''events'' = Some (JArr (event # rest))"
    and "truthy event"
    and "read_prop event ''competitors'' = JArr cs"
    and "n \<le> - 1"
    and "list_all lpga_row_ok (take (length cs - nat \<lfloor>- n\<rfloor>) cs)"
  shows "\<exists>out lb. lpga_leaderboard up now (Some n) = Some out
           \<and> read_prop out ''leaderboard'' = JArr lb
           \<and> length lb = length cs - nat \<lfloor>- n\<rfloor>
           \<and> (\<forall>i<length lb. lpga_entry (cs ! i) i = Some (lb ! i))"
proof -
  obtain tournament where
    "lpga_leaderboard up now (Some n)
       = map_option (\<lambda>lb. JObj [(''tournament'', tournament), (''leaderboard'', JArr lb),
                                 (''fetchedAt'', JStr now)])
           (map_js lpga_entry (js_slice cs 0 (limit_input 30 (Some n))) 0)"
    using lpga_leaderboard_unfold [OF assms(1-4)] by blast
  then have "lpga_leaderboard up now (Some n)
       = map_option (\<lambda>lb. JObj [(''tournament'', tournament), (''leaderboard'', JArr lb),
                                 (''fetchedAt'', JStr now)])
           (map_js lpga_entry (take (length cs - nat \<lfloor>- n\<rfloor>) cs) 0)"
    using assms(5) by (simp add: limit_input_def js_slice_neg)
  from mapped_take_total [OF this assms(6) lpga_entry_total] show ?thesis
    by auto
qed

lemma analytics_transactions_negative:
  assumes "tracker_of ag = Some tracker"
    and "getAllTransactions lib tracker windowMs = Some txs"
    and "n \<le> - 1"
  shows "analytics_transactions lib ag windowMs (Some n)
           = Some (JObj [(''transactions'', JArr (take (length txs - nat \<lfloor>- n\<rfloor>) txs))])"
  using analytics_transactions_unfold [OF assms(1,2)] assms(3)
  by (simp add: limit_input_def js_slice_neg)

lemma dropped_count:
  assumes "n \<le> - 1" and "nat \<lfloor>- n\<rfloor> < m"
  shows "0 < m - nat \<lfloor>- n\<rfloor> \<and> m - nat \<lfloor>- n\<rfloor> < m"
proof -
  have "1 \<le> \<lfloor>- n\<rfloor>" using assms(1) by (simp add: le_floor_iff)
  then have "0 < nat \<lfloor>- n\<rfloor>" by simp
  then show ?thesis using assms(2) by simp
qed

text \<open>
  C10 (as the code has it). With a limit \<open>n \<le> -1\<close>, whose integer part drops
  \<open>k = \<lfloor>|n|\<rfloor>\<close> elements (\<open>k = |n|\<close> for an integer \<open>n\<close>), against a list of \<open>m > k\<close>
  elements, pga-leaderboard, pga-schedule, lpga-leaderboard and analytics-transactions
  return the first \<open>m - k\<close> elements (for the first three, the rows mapped from them): the
  last \<open>k\<close> are dropped, and the result is neither empty, nor the whole list, nor an error.
\<close>

theorem negative_limit_drops_tail:
  "(fetchJSON up (ESPN_BASE @ ''/pga/events'') = Some data
      \<and> get data ''events'' = Some (JArr (event # rest))
      \<and> truthy event
      \<and> fetchJSON up (ESPN_BASE @ ''/pga/scoreboard?event='' @ to_string (read_prop event ''id''))
          = Some scoreboard
      \<and> scoreboard_competitors scoreboard = Some (JArr cs)
      \<and> n \<le> - 1 \<and> nat \<lfloor>- n\<rfloor> < length cs
      \<and> list_all (\<lambda>c. \<not> nullish c) (take (length cs - nat \<lfloor>- n\<rfloor>) cs)
    \<longrightarrow> (\<exists>out lb. pga_leaderboard up now (Some n) = Some out
           \<and> read_prop out ''leaderboard'' = JArr lb
           \<and> length lb = length cs - nat \<lfloor>- n\<rfloor>
           \<and> 0 < length lb \<and> length lb < length cs
           \<and> (\<forall>i<length lb. pga_entry (cs ! i) i = Some (lb ! i))))
   \<and> (fetchJSON up (ESPN_BASE @ ''/pga/scoreboard'') = Some sdata
      \<and> league_calendar sdata = Some (JArr es)
      \<and> n \<le> - 1 \<and> nat \<lfloor>- n\<rfloor> < length es
      \<and> list_all (\<lambda>c. \<not> nullish c) (take (length es - nat \<lfloor>- n\<rfloor>) es)
    \<longrightarrow> (\<exists>out evs. pga_schedule up now (Some n) = Some out
           \<and> read_prop out ''events'' = JArr evs
           \<and> length evs = length es - nat \<lfloor>- n\<rfloor>
           \<and> 0 < length evs \<and> length evs < length es
           \<and> (\<forall>i<length evs. schedule_entry (es ! i) i = Some (evs ! i))))
   \<and> (fetchJSON up (ESPN_BASE @ ''/lpga/events'') = Some ldata
      \<and> get ldata ''events'' = Some (JArr (levent # lrest))
      \<and> truthy levent
      \<and> read_prop levent ''competitors'' = JArr ls
      \<and> n \<le> - 1 \<and> nat \<lfloor>- n\<rfloor> < length ls
      \<and> list_all lpga_row_ok (take (length ls - nat \<lfloor>- n\<rfloor>) ls)
    \<longrightarrow> (\<exists>out lb. lpga_leaderboard up now (Some n) = Some out
           \<and> read_prop out ''leaderboard'' = JArr lb
           \<and> length lb = length ls - nat \<lfloor>- n\<rfloor>
           \<and> 0 < length lb \<and> length lb < length ls
           \<and> (\<forall>i<length lb. lpga_entry (ls ! i) i = Some (lb ! i))))
   \<and> (tracker_of ag = Some tracker
      \<and> getAllTransactions lib tracker windowMs = Some txs
      \<and> n \<le> - 1 \<and> nat \<lfloor>- n\<rfloor> < length txs
    \<longrightarrow> analytics_transactions lib ag windowMs (Some n)
          = Some (JObj [(''transactions'', JArr (take (length txs - nat \<lfloor>- n\<rfloor>) txs))])
        \<and> 0 < length (take (length txs - nat \<lfloor>- n\<rfloor>) txs)
        \<and> length (take (length txs - nat \<lfloor>- n\<rfloor>) txs) < length txs)"
proof (intro conjI impI)
  assume a: "fetchJSON up (ESPN_BASE @ ''/pga/events'') = Some data
      \<and> get data ''events'' = Some (JArr (event # rest))
      \<and> truthy event
      \<and> fetchJSON up (ESPN_BASE @ ''/pga/scoreboard?event='' @ to_string (read_prop event ''id''))
          = Some scoreboard
      \<and> scoreboard_competitors scoreboard = Some (JArr cs)
      \<and> n \<le> - 1 \<and> nat \<lfloor>- n\<rfloor> < length cs
      \<and> list_all (\<lambda>c. \<not> nullish c) (take (length cs - nat \<lfloor>- n\<rfloor>) cs)"
  then have "\<exists>out lb. pga_leaderboard up now (Some n) = Some out
           \<and> read_prop out ''leaderboard'' = JArr lb
           \<and> length lb = length cs - nat \<lfloor>- n\<rfloor>
           \<and> (\<forall>i<length lb. pga_entry (cs ! i) i = Some (lb ! i))"
    by (intro pga_leaderboard_negative [where data = data and event = event and rest = rest
          and scoreboard = scoreboard]) simp_all
  moreover have "0 < length cs - nat \<lfloor>- n\<rfloor> \<and> length cs - nat \<lfloor>- n\<rfloor> < length cs"
    using a by (intro dropped_count) simp_all
  ultimately show "\<exists>out lb. pga_leaderboard up now (Some n) = Some out
           \<and> read_prop out ''leaderboard'' = JArr lb
           \<and> length lb = length cs - nat \<lfloor>- n\<rfloor>
           \<and> 0 < length lb \<and> length lb < length cs
           \<and> (\<forall>i<length lb. pga_entry (cs ! i) i = Some (lb ! i))"
    by auto
next
  assume a: "fetchJSON up (ESPN_BASE @ ''/pga/scoreboard'') = Some sdata
      \<and> league_calendar sdata = Some (JArr es)
      \<and> n \<le> - 1 \<and> nat \<lfloor>- n\<rfloor> < length es
      \<and> list_all (\<lambda>c. \<not> nullish c) (take (length es - nat \<lfloor>- n\<rfloor>) es)"
  then have "\<exists>out evs. pga_schedule up now (Some n) = Some out
           \<and> read_prop out ''events'' = JArr evs
           \<and> length evs = length es - nat \<lfloor>- n\<rfloor>
           \<and> (\<forall>i<length evs. schedule_entry (es ! i) i = Some (evs ! i))"
    by (intro pga_schedule_negative [where data = sdata]) simp_all
  moreover have "0 < length es - nat \<lfloor>- n\<rfloor> \<and> length es - nat \<lfloor>- n\<rfloor> < length es"
    using a by (intro dropped_count) simp_all
  ultimately show "\<exists>out evs. pga_schedule up now (Some n) = Some out
           \<and> read_prop out ''events'' = JArr evs
           \<and> length evs = length es - nat \<lfloor>- n\<rfloor>
           \<and> 0 < length evs \<and> length evs < length es
           \<and> (\<forall>i<length evs. schedule_entry (es ! i) i = Some (evs ! i))"
    by auto
next
  assume a: "fetchJSON up (ESPN_BASE @ ''/lpga/events'') = Some ldata
      \<and> get ldata ''events'' = Some (JArr (levent # lrest))
      \<and> truthy levent
      \<and> read_prop levent ''competitors'' = JArr ls
      \<and> n \<le> - 1 \<and> nat \<lfloor>- n\<rfloor> < length ls
      \<and> list_all lpga_row_ok (take (length ls - nat \<lfloor>- n\<rfloor>) ls)"
  then have "\<exists>out lb. lpga_leaderboard up now (Some n) = Some out
           \<and> read_prop out ''leaderboard'' = JArr lb
           \<and> length lb = length ls - nat \<lfloor>- n\<rfloor>
           \<and> (\<forall>i<length lb. lpga_entry (ls ! i) i = Some (lb ! i))"
    by (intro lpga_leaderboard_negative [where data = ldata and event = levent
          and rest = lrest]) simp_all
  moreover have "0 < length ls - nat \<lfloor>- n\<rfloor> \<and> length ls - nat \<lfloor>- n\<rfloor> < length ls"
    using a by (intro dropped_count) simp_all
  ultimately show "\<exists>out lb. lpga_leaderboard up now (Some n) = Some out
           \<and> read_prop out ''leaderboard'' = JArr lb
           \<and> length lb = length ls - nat \<lfloor>- n\<rfloor>
           \<and> 0 < length lb \<and> length lb < length ls
           \<and> (\<forall>i<length lb. lpga_entry (ls ! i) i = Some (lb ! i))"
    by auto
next
  assume a: "tracker_of ag = Some tracker
      \<and> getAllTransactions lib tracker windowMs = Some txs
      \<and> n \<le> - 1 \<and> nat \<lfloor>- n\<rfloor> < length txs"
  then show "analytics_transactions lib ag windowMs (Some n)
          = Some (JObj [(''transactions'', JArr (take (length txs - nat \<lfloor>- n\<rfloor>) txs))])"
    using analytics_transactions_negative [of ag tracker lib windowMs txs n] by simp
  have d: "0 < length txs - nat \<lfloor>- n\<rfloor> \<and> length txs - nat \<lfloor>- n\<rfloor> < length txs"
    using a by (intro dropped_count) simp_all
  from d show "0 < length (take (length txs - nat \<lfloor>- n\<rfloor>) txs)" by simp
  from d show "length (take (length txs - nat \<lfloor>- n\<rfloor>) txs) < length txs" by simp
qed

theorem negative_limit_drops_tail_witness:
  "(\<exists>out lb. pga_leaderboard demo_upstream demo_now (Some (- 1)) = Some out
       \<and> read_prop out ''leaderboard'' = JArr lb
       \<and> length lb = 2
       \<and> (\<forall>i<length lb. pga_entry ([rose, smith, doe] ! i) i = Some (lb ! i)))
   \<and> (\<exists>out evs. pga_schedule demo_upstream demo_now (Some (- 1)) = Some out
       \<and> read_prop out ''events'' = JArr evs
       \<and> length evs = 2
       \<and> (\<forall>i<length evs. schedule_entry (demo_calendar ! i) i = Some (evs ! i)))
   \<and> (\<exists>out lb. lpga_leaderboard demo_upstream demo_now (Some (- 1)) = Some out
       \<and> read_prop out ''leaderboard'' = JArr lb
       \<and> length lb = 1
       \<and> (\<forall>i<length lb. lpga_entry ([charley, korda] ! i) i = Some (lb ! i)))
   \<and> analytics_transactions demo_lib tracked_agent None (Some (- 1))
      = Some (JObj [(''transactions'',
                     JArr [JObj [(''amount'', JStr ''1000'')],
                           JObj [(''amount'', JStr ''2000'')],
                           JObj [(''amount'', JStr ''2000'')]])])"
proof -
  let ?d = "JObj [(''events'', JArr [demo_pga_event])]"
  let ?l = "JObj [(''events'', JArr [demo_lpga_event])]"
  let ?txs = "[JObj [(''amount'', JStr ''1000'')], JObj [(''amount'', JStr ''2000'')],
               JObj [(''amount'', JStr ''2000'')], JObj [(''amount'', JStr ''2000'')]]"
  have k: "nat \<lfloor>- (- 1 :: rat)\<rfloor> = 1" by simp
  have f: "fetchJSON demo_upstream (ESPN_BASE @ ''/pga/events'') = Some ?d"
    by code_simp
  have e: "get ?d ''events'' = Some (JArr (demo_pga_event # []))"
    by code_simp
  have t: "truthy demo_pga_event"
    by code_simp
  have s: "fetchJSON demo_upstream
       (ESPN_BASE @ ''/pga/scoreboard?event='' @ to_string (read_prop demo_pga_event ''id''))
     = Some demo_scoreboard"
    by code_simp
  have sc: "scoreboard_competitors demo_scoreboard = Some (JArr [rose, smith, doe])"
    by code_simp
  have n: "(- 1 :: rat) \<le> - 1" by simp
  have m1: "nat \<lfloor>- (- 1 :: rat)\<rfloor> < length [rose, smith, doe]" by simp
  have w1: "list_all (\<lambda>c. \<not> nullish c)
              (take (length [rose, smith, doe] - nat \<lfloor>- (- 1 :: rat)\<rfloor>) [rose, smith, doe])"
    unfolding k by (simp add: rose_def smith_def)
  have f2: "fetchJSON demo_upstream (ESPN_BASE @ ''/pga/scoreboard'') = Some demo_scoreboard"
    by code_simp
  have lc: "league_calendar demo_scoreboard = Some (JArr demo_calendar)"
    by code_simp
  have l3: "length demo_calendar = 3" by code_simp
  have m2: "nat \<lfloor>- (- 1 :: rat)\<rfloor> < length demo_calendar" unfolding k l3 by simp
  have w2: "list_all (\<lambda>c. \<not> nullish c)
              (take (length demo_calendar - nat \<lfloor>- (- 1 :: rat)\<rfloor>) demo_calendar)"
    unfolding k by (simp add: demo_calendar_def)
  have f3: "fetchJSON demo_upstream (ESPN_BASE @ ''/lpga/events'') = Some ?l"
    by code_simp
  have e3: "get ?l ''events'' = Some (JArr (demo_lpga_event # []))"
    by code_simp
  have t3: "truthy demo_lpga_event"
    by code_simp
  have c3: "read_prop demo_lpga_event ''competitors'' = JArr [charley, korda]"
    by code_simp
  have m3: "nat \<lfloor>- (- 1 :: rat)\<rfloor> < length [charley, korda]" by simp
  have w3: "list_all lpga_row_ok
              (take (length [charley, korda] - nat \<lfloor>- (- 1 :: rat)\<rfloor>) [charley, korda])"
    unfolding k by (simp add: lpga_row_ok_def charley_def)
  have tr: "tracker_of tracked_agent = Some ()"
    by code_simp
  have tx: "getAllTransactions demo_lib () None = Some ?txs"
    by code_simp
  have m4: "nat \<lfloor>- (- 1 :: rat)\<rfloor> < length ?txs" by simp
  note g = negative_limit_drops_tail [where up = demo_upstream and now = demo_now
      and n = "- 1"]
  note g1 = g [THEN conjunct1, THEN mp,
      OF conjI [OF f conjI [OF e conjI [OF t conjI [OF s conjI [OF sc conjI [OF n
           conjI [OF m1 w1]]]]]]]]
  note g2 = g [THEN conjunct2, THEN conjunct1, THEN mp,
      OF conjI [OF f2 conjI [OF lc conjI [OF n conjI [OF m2 w2]]]]]
  note g3 = g [THEN conjunct2, THEN conjunct2, THEN conjunct1, THEN mp,
      OF conjI [OF f3 conjI [OF e3 conjI [OF t3 conjI [OF c3 conjI [OF n conjI [OF m3 w3]]]]]]]
  note g4 = g [THEN conjunct2, THEN conjunct2, THEN conjunct2, THEN mp,
      OF conjI [OF tr conjI [OF tx conjI [OF n m4]]]]
  have a1: "\<exists>out lb. pga_leaderboard demo_upstream demo_now (Some (- 1)) = Some out
       \<and> read_prop out ''leaderboard'' = JArr lb
       \<and> length lb = 2
       \<and> (\<forall>i<length lb. pga_entry ([rose, smith, doe] ! i) i = Some (lb ! i))"
    using g1 unfolding k by (auto simp add: numeral_2_eq_2)
  have a2: "\<exists>out evs. pga_schedule demo_upstream demo_now (Some (- 1)) = Some out
       \<and> read_prop out ''events'' = JArr evs
       \<and> length evs = 2
       \<and> (\<forall>i<length evs. schedule_entry (demo_calendar ! i) i = Some (evs ! i))"
    using g2 unfolding k l3 by auto
  have a3: "\<exists>out lb. lpga_leaderboard demo_upstream demo_now (Some (- 1)) = Some out
       \<and> read_prop out ''leaderboard'' = JArr lb
       \<and> length lb = 1
       \<and> (\<forall>i<length lb. lpga_entry ([charley, korda] ! i) i = Some (lb ! i))"
    using g3 unfolding k by auto
  have a4: "analytics_transactions demo_lib tracked_agent None (Some (- 1))
      = Some (JObj [(''transactions'',
                     JArr [JObj [(''amount'', JStr ''1000'')],
                           JObj [(''amount'', JStr ''2000'')],
                           JObj [(''amount'', JStr ''2000'')]])])"
    using g4 unfolding k by simp
  show ?thesis
    by (intro conjI a1 a2 a3 a4)
qed

text \<open>
  C10 as stated fails: the schemas take any number as the limit, and the negative limit
  \<open>-0.5\<close> is cut to \<open>0\<close>, so that against the three calendar entries (\<open>3 > 0.5\<close>)
  pga-schedule returns the empty list, which the claim rules out.
\<close>

theorem negative_limit_drops_tail_counterexample:
  "(- 1 / 2 :: rat) < 0
   \<and> \<bar>- 1 / 2 :: rat\<bar> < rat_of_nat (length demo_calendar)
   \<and> league_calendar demo_scoreboard = Some (JArr demo_calendar)
   \<and> pga_schedule demo_upstream demo_now (Some (- 1 / 2))
     = Some (JObj [(''season'', JStr ''2025''),
                   (''events'', JArr []),
                   (''fetchedAt'', JStr ''2025-07-18T10:00:00.000Z'')])"
  by code_simp

section \<open>Positions and order\<close>

lemma overview_rows:
  assumes "fetchJSON up (ESPN_BASE @ ''/pga/events'') = Some data"
    and "get data ''events'' = Some (JArr (event # rest))"
    and "truthy event"
    and "read_prop event ''competitors'' = JArr cs"
    and "overview up now = Some out"
  shows "\<exists>lb. read_prop out ''leaderboard'' = JArr lb \<and> length lb \<le> length cs
           \<and> (\<forall>i<length lb. overview_entry (cs ! i) i = Some (lb ! i))"
proof -
  obtain tournament status round where
    "overview up now
       = map_option (\<lambda>lb. JObj [(''tournament'', tournament), (''status'', status),
                                 (''round'', round), (''leaderboard'', JArr lb),
                                 (''fetchedAt'', JStr now),
                                 (''dataSource'', JStr ''ESPN Golf API (live)'')])
           (map_js overview_entry (take 10 cs) 0)"
    using overview_unfold [OF assms(1-4)] by blast
  from mapped_take_rows [OF this assms(5)] show ?thesis by auto
qed

lemma pga_leaderboard_rows:
  assumes "fetchJSON up (ESPN_BASE @ ''/pga/events'') = Some data"
    and "get data ''events'' = Some (JArr (event # rest))"
    and "truthy event"
    and "fetchJSON up (ESPN_BASE @ ''/pga/scoreboard?event='' @ to_string (read_prop event ''id''))
           = Some scoreboard"
    and "scoreboard_competitors scoreboard = Some (JArr cs)"
    and "pga_leaderboard up now input = Some out"
  shows "\<exists>lb. read_prop out ''leaderboard'' = JArr lb \<and> length lb \<le> length cs
           \<and> (\<forall>i<length lb. pga_entry (cs ! i) i = Some (lb ! i))"
proof -
  obtain k where k: "js_slice cs 0 (limit_input 50 input) = take k cs"
    using js_slice_prefix by blast
  obtain tournament where
    "pga_leaderboard up now input
       = map_option (\<lambda>lb. JObj [(''tournament'', tournament), (''leaderboard'', JArr lb),
                                 (''totalPlayers'', JNum (int (length cs))),
                                 (''fetchedAt'', JStr now)])
           (map_js pga_entry (js_slice cs 0 (limit_input 50 input)) 0)"
    using pga_leaderboard_unfold [OF assms(1-5)] by blast
  then have "pga_leaderboard up now input
       = map_option (\<lambda>lb. JObj [(''tournament'', tournament), (''leaderboard'', JArr lb),
                                 (''totalPlayers'', JNum (int (length cs))),
                                 (''fetchedAt'', JStr now)])
           (map_js pga_entry (take k cs) 0)"
    using k by simp
  from mapped_take_rows [OF this assms(6)] show ?thesis by auto
qed

lemma lpga_leaderboard_rows:
  assumes "fetchJSON up (ESPN_BASE @ ''/lpga/events'') = Some data"
    and "get data ''events'' = Some (JArr (event # rest))"
    and "truthy event"
    and "read_prop event ''competitors'' = JArr cs"
    and "lpga_leaderboard up now input = Some out"
  shows "\<exists>lb. read_prop out ''leaderboard'' = JArr lb \<and> length lb \<le> length cs
           \<and> (\<forall>i<length lb. lpga_entry (cs ! i) i = Some (lb ! i))"
proof -
  obtain k where k: "js_slice cs 0 (limit_input 30 input) = take k cs"
    using js_slice_prefix by blast
  obtain tournament where
    "lpga_leaderboard up now input
       = map_option (\<lambda>lb. JObj [(''tournament'', tournament), (''leaderboard'', JArr lb),
                                 (''fetchedAt'', JStr now)])
           (map_js lpga_entry (js_slice cs 0 (limit_input 30 input)) 0)"
    using lpga_leaderboard_unfold [OF assms(1-4)] by blast
  then have "lpga_leaderboard up now input
       = map_option (\<lambda>lb. JObj [(''tournament'', tournament), (''leaderboard'', JArr lb),
                                 (''fetchedAt'', JStr now)])
           (map_js lpga_entry (take k cs) 0)"
    using k by simp
  from mapped_take_rows [OF this assms(5)] show ?thesis by auto
qed

lemma report_section_rows:
  assumes "truthy ev"
    and "read_prop ev ''competitors'' = JArr cs"
    and "report_section ev = Some sec"
  shows "\<exists>tp. read_prop sec ''topPlayers'' = JArr tp \<and> length tp \<le> length cs
           \<and> (\<forall>i<length tp. top_entry (cs ! i) i = Some (tp ! i))"
proof -
  obtain tournament status round where
    "report_section ev
       = map_option (\<lambda>tp. JObj [(''tournament'', tournament), (''status'', status),
                                 (''round'', round), (''topPlayers'', JArr tp)])
           (map_js top_entry (take 10 cs) 0)"
    using report_section_unfold [OF assms(1,2)] by blast
  from mapped_take_rows [OF this assms(3)] show ?thesis by auto
qed

lemma full_report_pga_rows:
  assumes "fetchJSON up (ESPN_BASE @ ''/pga/events'') = Some data"
    and "get data ''events'' = Some (JArr (event # rest))"
    and "truthy event"
    and "read_prop event ''competitors'' = JArr cs"
    and "full_report up now = Some out"
  shows "\<exists>tp. read_prop (read_prop out ''pga'') ''topPlayers'' = JArr tp
           \<and> length tp \<le> length cs
           \<and> (\<forall>i<length tp. top_entry (cs ! i) i = Some (tp ! i))"
proof -
  have "report_section (opt_index (JArr (event # rest)) 0) = Some (read_prop out ''pga'')"
    using full_report_pga [OF assms(5,1,2)] .
  then have "report_section event = Some (read_prop out ''pga'')"
    by (simp add: opt_index_def)
  from report_section_rows [OF assms(3,4) this] show ?thesis .
qed

lemma full_report_lpga_rows:
  assumes "fetchJSON up (ESPN_BASE @ ''/lpga/events'') = Some data"
    and "get data ''events'' = Some (JArr (event # rest))"
    and "truthy event"
    and "read_prop event ''competitors'' = JArr cs"
    and "full_report up now = Some out"
  shows "\<exists>tp. read_prop (read_prop out ''lpga'') ''topPlayers'' = JArr tp
           \<and> length tp \<le> length cs
           \<and> (\<forall>i<length tp. top_entry (cs ! i) i = Some (tp ! i))"
proof -
  have "report_section (opt_index (JArr (event # rest)) 0) = Some (read_prop out ''lpga'')"
    using full_report_lpga [OF assms(5,1,2)] .
  then have "report_section event = Some (read_prop out ''lpga'')"
    by (simp add: opt_index_def)
  from report_section_rows [OF assms(3,4) this] show ?thesis .
qed

text \<open>
  C7. In every leaderboard the handlers produce (overview, pga-leaderboard,
  lpga-leaderboard, and the top players of both tours in full-report), row \<open>i\<close> (from 0)
  holds position \<open>i + 1\<close> and the score of competitor \<open>i\<close> of the upstream list, with
  its name (its id in pga-leaderboard): the rows are a prefix of the upstream list in the
  upstream order.
\<close>

theorem positions_follow_upstream_order:
  "(fetchJSON up (ESPN_BASE @ ''/pga/events'') = Some data
      \<and> get data ''events'' = Some (JArr (event # rest))
      \<and> truthy event
      \<and> read_prop event ''competitors'' = JArr cs
      \<and> overview up now = Some out
    \<longrightarrow> (\<exists>lb. read_prop out ''leaderboard'' = JArr lb \<and> length lb \<le> length cs
           \<and> (\<forall>i<length lb.
                  read_prop (lb ! i) ''position'' = JNum (int i + 1)
                \<and> read_prop (lb ! i) ''name'' = read_prop (cs ! i) ''displayName''
                \<and> read_prop (lb ! i) ''score'' = read_prop (cs ! i) ''score'')))
   \<and> (fetchJSON up (ESPN_BASE @ ''/pga/events'') = Some data
      \<and> get data ''events'' = Some (JArr (event # rest))
      \<and> truthy event
      \<and> fetchJSON up (ESPN_BASE @ ''/pga/scoreboard?event='' @ to_string (read_prop event ''id''))
          = Some scoreboard
      \<and> scoreboard_competitors scoreboard = Some (JArr ps)
      \<and> pga_leaderboard up now input = Some pout
    \<longrightarrow> (\<exists>lb. read_prop pout ''leaderboard'' = JArr lb \<and> length lb \<le> length ps
           \<and> (\<forall>i<length lb.
                  read_prop (lb ! i) ''position'' = JNum (int i + 1)
                \<and> read_prop (lb ! i) ''playerId'' = read_prop (ps ! i) ''id''
                \<and> read_prop (lb ! i) ''score'' = read_prop (ps ! i) ''score'')))
   \<and> (fetchJSON up (ESPN_BASE @ ''/lpga/events'') = Some ldata
      \<and> get ldata ''events'' = Some (JArr (levent # lrest))
      \<and> truthy levent
      \<and> read_prop levent ''competitors'' = JArr ls
      \<and> lpga_leaderboard up now input = Some lout
    \<longrightarrow> (\<exists>lb. read_prop lout ''leaderboard'' = JArr lb \<and> length lb \<le> length ls
           \<and> (\<forall>i<length lb.
                  read_prop (lb ! i) ''position'' = JNum (int i + 1)
                \<and> read_prop (lb ! i) ''name'' = read_prop (ls ! i) ''displayName''
                \<and> read_prop (lb ! i) ''score'' = read_prop (ls ! i) ''score'')))
   \<and> (fetchJSON up (ESPN_BASE @ ''/pga/events'') = Some data
      \<and> get data ''events'' = Some (JArr (event # rest))
      \<and> truthy event
      \<and> read_prop event ''competitors'' = JArr cs
      \<and> full_report up now = Some rout
    \<longrightarrow> (\<exists>tp. read_prop (read_prop rout ''pga'') ''topPlayers'' = JArr tp
           \<and> length tp \<le> length cs
           \<and> (\<forall>i<length tp.
                  read_prop (tp ! i) ''position'' = JNum (int i + 1)
                \<and> read_prop (tp ! i) ''name'' = read_prop (cs ! i) ''displayName''
                \<and> read_prop (tp ! i) ''score'' = read_prop (cs ! i) ''score'')))
   \<and> (fetchJSON up (ESPN_BASE @ ''/lpga/events'') = Some ldata
      \<and> get ldata ''events'' = Some (JArr (levent # lrest))
      \<and> truthy levent
      \<and> read_prop levent ''competitors'' = JArr ls
      \<and> full_report up now = Some rout
    \<longrightarrow> (\<exists>tp. read_prop (read_prop rout ''lpga'') ''topPlayers'' = JArr tp
           \<and> length tp \<le> length ls
           \<and> (\<forall>i<length tp.
                  read_prop (tp ! i) ''position'' = JNum (int i + 1)
                \<and> read_prop (tp ! i) ''name'' = read_prop (ls ! i) ''displayName''
                \<and> read_prop (tp ! i) ''score'' = read_prop (ls ! i) ''score'')))"
proof (intro conjI impI)
  assume "fetchJSON up (ESPN_BASE @ ''/pga/events'') = Some data
      \<and> get data ''events'' = Some (JArr (event # rest))
      \<and> truthy event
      \<and> read_prop event ''competitors'' = JArr cs
      \<and> overview up now = Some out"
  then obtain lb where "read_prop out ''leaderboard'' = JArr lb" and "length lb \<le> length cs"
    and "\<forall>i<length lb. overview_entry (cs ! i) i = Some (lb ! i)"
    using overview_rows [of up data event rest cs now out] by blast
  then show "\<exists>lb. read_prop out ''leaderboard'' = JArr lb \<and> length lb \<le> length cs
           \<and> (\<forall>i<length lb.
                  read_prop (lb ! i) ''position'' = JNum (int i + 1)
                \<and> read_prop (lb ! i) ''name'' = read_prop (cs ! i) ''displayName''
                \<and> read_prop (lb ! i) ''score'' = read_prop (cs ! i) ''score'')"
    using overview_entry_fields by blast
next
  assume "fetchJSON up (ESPN_BASE @ ''/pga/events'') = Some data
      \<and> get data ''events'' = Some (JArr (event # rest))
      \<and> truthy event
      \<and> fetchJSON up (ESPN_BASE @ ''/pga/scoreboard?event='' @ to_string (read_prop event ''id''))
          = Some scoreboard
      \<and> scoreboard_competitors scoreboard = Some (JArr ps)
      \<and> pga_leaderboard up now input = Some pout"
  then obtain lb where "read_prop pout ''leaderboard'' = JArr lb" and "length lb \<le> length ps"
    and "\<forall>i<length lb. pga_entry (ps ! i) i = Some (lb ! i)"
    using pga_leaderboard_rows [of up data event rest scoreboard ps now input pout] by blast
  then show "\<exists>lb. read_prop pout ''leaderboard'' = JArr lb \<and> length lb \<le> length ps
           \<and> (\<forall>i<length lb.
                  read_prop (lb ! i) ''position'' = JNum (int i + 1)
                \<and> read_prop (lb ! i) ''playerId'' = read_prop (ps ! i) ''id''
                \<and> read_prop (lb ! i) ''score'' = read_prop (ps ! i) ''score'')"
    using pga_entry_fields by blast
next
  assume "fetchJSON up (ESPN_BASE @ ''/lpga/events'') = Some ldata
      \<and> get ldata ''events'' = Some (JArr (levent # lrest))
      \<and> truthy levent
      \<and> read_prop levent ''competitors'' = JArr ls
      \<and> lpga_leaderboard up now input = Some lout"
  then obtain lb where "read_prop lout ''leaderboard'' = JArr lb" and "length lb \<le> length ls"
    and "\<forall>i<length lb. lpga_entry (ls ! i) i = Some (lb ! i)"
    using lpga_leaderboard_rows [of up ldata levent lrest ls now input lout] by blast
  then show "\<exists>lb. read_prop lout ''leaderboard'' = JArr lb \<and> length lb \<le> length ls
           \<and> (\<forall>i<length lb.
                  read_prop (lb ! i) ''position'' = JNum (int i + 1)
                \<and> read_prop (lb ! i) ''name'' = read_prop (ls ! i) ''displayName''
                \<and> read_prop (lb ! i) ''score'' = read_prop (ls ! i) ''score'')"
    using lpga_entry_fields by blast
next
  assume "fetchJSON up (ESPN_BASE @ ''/pga/events'') = Some data
      \<and> get data ''events'' = Some (JArr (event # rest))
      \<and> truthy event
      \<and> read_prop event ''competitors'' = JArr cs
      \<and> full_report up now = Some rout"
  then obtain tp where "read_prop (read_prop rout ''pga'') ''topPlayers'' = JArr tp"
    and "length tp \<le> length cs"
    and "\<forall>i<length tp. top_entry (cs ! i) i = Some (tp ! i)"
    using full_report_pga_rows [of up data event rest cs now rout] by blast
  then show "\<exists>tp. read_prop (read_prop rout ''pga'') ''topPlayers'' = JArr tp
           \<and> length tp \<le> length cs
           \<and> (\<forall>i<length tp.
                  read_prop (tp ! i) ''position'' = JNum (int i + 1)
                \<and> read_prop (tp ! i) ''name'' = read_prop (cs ! i) ''displayName''
                \<and> read_prop (tp ! i) ''score'' = read_prop (cs ! i) ''score'')"
    using top_entry_fields by blast
next
  assume "fetchJSON up (ESPN_BASE @ ''/lpga/events'') = Some ldata
      \<and> get ldata ''events'' = Some (JArr (levent # lrest))
      \<and> truthy levent
      \<and> read_prop levent ''competitors'' = JArr ls
      \<and> full_report up now = Some rout"
  then obtain tp where "read_prop (read_prop rout ''lpga'') ''topPlayers'' = JArr tp"
    and "length tp \<le> length ls"
    and "\<forall>i<length tp. top_entry (ls ! i) i = Some (tp ! i)"
    using full_report_lpga_rows [of up ldata levent lrest ls now rout] by blast
  then show "\<exists>tp. read_prop (read_prop rout ''lpga'') ''topPlayers'' = JArr tp
           \<and> length tp \<le> length ls
           \<and> (\<forall>i<length tp.
                  read_prop (tp ! i) ''position'' = JNum (int i + 1)
                \<and> read_prop (tp ! i) ''name'' = read_prop (ls ! i) ''displayName''
                \<and> read_prop (tp ! i) ''score'' = read_prop (ls ! i) ''score'')"
    using top_entry_fields by blast
qed

theorem positions_follow_upstream_order_witness:
  "(\<exists>out lb. overview demo_upstream demo_now = Some out
       \<and> read_prop out ''leaderboard'' = JArr lb \<and> length lb \<le> length [rose, smith, doe]
       \<and> (\<forall>i<length lb.
              read_prop (lb ! i) ''position'' = JNum (int i + 1)
            \<and> read_prop (lb ! i) ''name'' = read_prop ([rose, smith, doe] ! i) ''displayName''
            \<and> read_prop (lb ! i) ''score'' = read_prop ([rose, smith, doe] ! i) ''score''))
   \<and> (\<exists>out lb. pga_leaderboard demo_upstream demo_now (Some 2) = Some out
       \<and> read_prop out ''leaderboard'' = JArr lb \<and> length lb \<le> length [rose, smith, doe]
       \<and> (\<forall>i<length lb.
              read_prop (lb ! i) ''position'' = JNum (int i + 1)
            \<and> read_prop (lb ! i) ''playerId'' = read_prop ([rose, smith, doe] ! i) ''id''
            \<and> read_prop (lb ! i) ''score'' = read_prop ([rose, smith, doe] ! i) ''score''))
   \<and> (\<exists>out lb. lpga_leaderboard demo_upstream demo_now (Some 2) = Some out
       \<and> read_prop out ''leaderboard'' = JArr lb \<and> length lb \<le> length [charley, korda]
       \<and> (\<forall>i<length lb.
              read_prop (lb ! i) ''position'' = JNum (int i + 1)
            \<and> read_prop (lb ! i) ''name'' = read_prop ([charley, korda] ! i) ''displayName''
            \<and> read_prop (lb ! i) ''score'' = read_prop ([charley, korda] ! i) ''score''))
   \<and> (\<exists>out tp. full_report demo_upstream demo_now = Some out
       \<and> read_prop (read_prop out ''pga'') ''topPlayers'' = JArr tp
       \<and> length tp \<le> length [rose, smith, doe]
       \<and> (\<forall>i<length tp.
              read_prop (tp ! i) ''position'' = JNum (int i + 1)
            \<and> read_prop (tp ! i) ''name'' = read_prop ([rose, smith, doe] ! i) ''displayName''
            \<and> read_prop (tp ! i) ''score'' = read_prop ([rose, smith, doe] ! i) ''score''))
   \<and> (\<exists>out tp. full_report demo_upstream demo_now = Some out
       \<and> read_prop (read_prop out ''lpga'') ''topPlayers'' = JArr tp
       \<and> length tp \<le> length [charley, korda]
       \<and> (\<forall>i<length tp.
              read_prop (tp ! i) ''position'' = JNum (int i + 1)
            \<and> read_prop (tp ! i) ''name'' = read_prop ([charley, korda] ! i) ''displayName''
            \<and> read_prop (tp ! i) ''score'' = read_prop ([charley, korda] ! i) ''score''))"
proof -
  let ?d = "JObj [(''events'', JArr [demo_pga_event])]"
  let ?l = "JObj [(''events'', JArr [demo_lpga_event])]"
  have f: "fetchJSON demo_upstream (ESPN_BASE @ ''/pga/events'') = Some ?d"
    by code_simp
  have e: "get ?d ''events'' = Some (JArr (demo_pga_event # []))"
    by code_simp
  have t: "truthy demo_pga_event"
    by code_simp
  have c: "read_prop demo_pga_event ''competitors'' = JArr [rose, smith, doe]"
    by code_simp
  have s: "fetchJSON demo_upstream
       (ESPN_BASE @ ''/pga/scoreboard?event='' @ to_string (read_prop demo_pga_event ''id''))
     = Some demo_scoreboard"
    by code_simp
  have sc: "scoreboard_competitors demo_scoreboard = Some (JArr [rose, smith, doe])"
    by code_simp
  have fl: "fetchJSON demo_upstream (ESPN_BASE @ ''/lpga/events'') = Some ?l"
    by code_simp
  have el: "get ?l ''events'' = Some (JArr (demo_lpga_event # []))"
    by code_simp
  have tl: "truthy demo_lpga_event"
    by code_simp
  have cl: "read_prop demo_lpga_event ''competitors'' = JArr [charley, korda]"
    by code_simp
  have "overview demo_upstream demo_now \<noteq> None"
    by code_simp
  then obtain o1 where o1: "overview demo_upstream demo_now = Some o1" by blast
  have "pga_leaderboard demo_upstream demo_now (Some 2) \<noteq> None"
    by code_simp
  then obtain o2 where o2: "pga_leaderboard demo_upstream demo_now (Some 2) = Some o2" by blast
  have "lpga_leaderboard demo_upstream demo_now (Some 2) \<noteq> None"
    by code_simp
  then obtain o3 where o3: "lpga_leaderboard demo_upstream demo_now (Some 2) = Some o3" by blast
  have "full_report demo_upstream demo_now \<noteq> None"
    by code_simp
  then obtain o4 where o4: "full_report demo_upstream demo_now = Some o4" by blast
  note g = positions_follow_upstream_order [where up = demo_upstream and now = demo_now
      and input = "Some 2" and rout = o4]
  note g1 = g [THEN conjunct1, THEN mp,
      OF conjI [OF f conjI [OF e conjI [OF t conjI [OF c o1]]]]]
  note g2 = g [THEN conjunct2, THEN conjunct1, THEN mp,
      OF conjI [OF f conjI [OF e conjI [OF t conjI [OF s conjI [OF sc o2]]]]]]
  note g3 = g [THEN conjunct2, THEN conjunct2, THEN conjunct1, THEN mp,
      OF conjI [OF fl conjI [OF el conjI [OF tl conjI [OF cl o3]]]]]
  note g4 = g [THEN conjunct2, THEN conjunct2, THEN conjunct2, THEN conjunct1, THEN mp,
      OF conjI [OF f conjI [OF e conjI [OF t conjI [OF c o4]]]]]
  note g5 = g [THEN conjunct2, THEN conjunct2, THEN conjunct2, THEN conjunct2, THEN mp,
      OF conjI [OF fl conjI [OF el conjI [OF tl conjI [OF cl o4]]]]]
  show ?thesis
    using o1 o2 o3 o4 g1 g2 g3 g4 g5 by (intro conjI) blast+
qed

section \<open>The scorecard of a player\<close>

lemma read_prop_string_truthy: "read_prop p k = JStr s \<Longrightarrow> truthy p"
  by (cases p) (simp_all split: if_splits)

lemma id_matches_miss:
  "\<not> nullish c \<Longrightarrow> read_prop c ''id'' \<noteq> JStr playerId \<Longrightarrow> id_matches playerId c = Some False"
  by (simp add: id_matches_def get_eq strict_eq_str_def)

lemma id_matches_hit:
  assumes "read_prop c ''id'' = JStr playerId"
  shows "id_matches playerId c = Some True"
proof -
  have "\<not> nullish c"
    using read_prop_string_truthy [OF assms] by (rule truthy_not_nullish)
  then show ?thesis using assms by (simp add: id_matches_def get_eq strict_eq_str_def)
qed

lemma find_js_miss:
  "list_all (\<lambda>c. \<not> nullish c \<and> read_prop c ''id'' \<noteq> JStr playerId) cs \<Longrightarrow>
   find_js (id_matches playerId) cs = Some JUndefined"
  by (induction cs) (simp_all add: id_matches_miss)

lemma find_js_hit:
  "list_all (\<lambda>c. \<not> nullish c \<and> read_prop c ''id'' \<noteq> JStr playerId) pre \<Longrightarrow>
   read_prop player ''id'' = JStr playerId \<Longrightarrow>
   find_js (id_matches playerId) (pre @ player # post) = Some player"
  by (induction pre) (simp_all add: id_matches_miss id_matches_hit)

lemma player_scorecard_found:
  assumes "fetchJSON up (ESPN_BASE @ ''/pga/events'') = Some data"
    and "get data ''events'' = Some (JArr (event # rest))"
    and "truthy event"
    and "fetchJSON up (ESPN_BASE @ ''/pga/scoreboard?event='' @ to_string (read_prop event ''id''))
           = Some scoreboard"
    and "scoreboard_competitors scoreboard = Some (JArr cs)"
    and "find_js (id_matches playerId) cs = Some player"
    and "truthy player"
    and "read_prop player ''linescores'' = JArr rs"
  shows "\<exists>name country.
           player_scorecard up now playerId
             = map_option (\<lambda>rounds. JObj [(''tournament'', read_prop event ''name''),
                                           (''player'',
                                            JObj [(''id'', read_prop player ''id''),
                                                  (''name'', name),
                                                  (''country'', country),
                                                  (''totalScore'', read_prop player ''score'')]),
                                           (''rounds'', JArr rounds),
                                           (''fetchedAt'', JStr now)])
                 (map_js round_entry rs 0)"
  using assms
  by (cases "map_js round_entry rs 0")
    (simp_all add: player_scorecard_def opt_index_def get_eq truthy_not_nullish js_or_def)

lemma player_scorecard_not_found:
  assumes "fetchJSON up (ESPN_BASE @ ''/pga/events'') = Some data"
    and "get data ''events'' = Some (JArr (event # rest))"
    and "truthy event"
    and "fetchJSON up (ESPN_BASE @ ''/pga/scoreboard?event='' @ to_string (read_prop event ''id''))
           = Some scoreboard"
    and "scoreboard_competitors scoreboard = Some (JArr cs)"
    and "find_js (id_matches playerId) cs = Some JUndefined"
  shows "player_scorecard up now playerId
           = map_option (\<lambda>hints. JObj [(''error'', JStr ''Player not found in current tournament''),
                                        (''availablePlayers'', JArr hints)])
               (map_js hint_entry (take 10 cs) 0)"
  using assms
  by (cases "map_js hint_entry (take 10 cs) 0")
    (simp_all add: player_scorecard_def opt_index_def get_eq truthy_not_nullish
      js_slice_nonneg)

lemma hint_entry_total: "\<not> nullish c \<Longrightarrow> \<exists>y. hint_entry c i = Some y"
  by (simp add: hint_entry_eq)

text \<open>
  C5. Given a \<open>playerId\<close> that is the id of a competitor of the scoreboard (the first
  such competitor counts, and those before it are not \<open>null\<close>), with a list of
  well-formed line-score rounds, the player-scorecard handler returns a \<open>rounds\<close> list
  of the same length. Given a \<open>playerId\<close> that is the id of no competitor, it returns
  (does not throw) an object with an \<open>error\<close> string and the id and name of the first
  competitors, ten at most.
\<close>

theorem player_scorecard_lookup:
  "(fetchJSON up (ESPN_BASE @ ''/pga/events'') = Some data
      \<and> get data ''events'' = Some (JArr (event # rest))
      \<and> truthy event
      \<and> fetchJSON up (ESPN_BASE @ ''/pga/scoreboard?event='' @ to_string (read_prop event ''id''))
          = Some scoreboard
      \<and> scoreboard_competitors scoreboard = Some (JArr (pre @ player # post))
      \<and> list_all (\<lambda>c. \<not> nullish c \<and> read_prop c ''id'' \<noteq> JStr playerId) pre
      \<and> read_prop player ''id'' = JStr playerId
      \<and> read_prop player ''linescores'' = JArr rs
      \<and> list_all round_ok rs
    \<longrightarrow> (\<exists>out rounds. player_scorecard up now playerId = Some out
           \<and> read_prop (read_prop out ''player'') ''id'' = JStr playerId
           \<and> read_prop out ''rounds'' = JArr rounds
           \<and> length rounds = length rs))
   \<and> (fetchJSON up (ESPN_BASE @ ''/pga/events'') = Some data
      \<and> get data ''events'' = Some (JArr (event # rest))
      \<and> truthy event
      \<and> fetchJSON up (ESPN_BASE @ ''/pga/scoreboard?event='' @ to_string (read_prop event ''id''))
          = Some scoreboard
      \<and> scoreboard_competitors scoreboard = Some (JArr cs)
      \<and> list_all (\<lambda>c. \<not> nullish c \<and> read_prop c ''id'' \<noteq> JStr playerId) cs
    \<longrightarrow> (\<exists>hints. player_scorecard up now playerId
                    = Some (JObj [(''error'', JStr ''Player not found in current tournament''),
                                  (''availablePlayers'', JArr hints)])
           \<and> length hints \<le> 10
           \<and> length hints = min 10 (length cs)
           \<and> (\<forall>i<length hints.
                  hints ! i = JObj [(''id'', read_prop (cs ! i) ''id''),
                                    (''name'',
                                     opt_get (read_prop (cs ! i) ''athlete'') ''displayName'')])))"
proof (intro conjI impI)
  assume a: "fetchJSON up (ESPN_BASE @ ''/pga/events'') = Some data
      \<and> get data ''events'' = Some (JArr (event # rest))
      \<and> truthy event
      \<and> fetchJSON up (ESPN_BASE @ ''/pga/scoreboard?event='' @ to_string (read_prop event ''id''))
          = Some scoreboard
      \<and> scoreboard_competitors scoreboard = Some (JArr (pre @ player # post))
      \<and> list_all (\<lambda>c. \<not> nullish c \<and> read_prop c ''id'' \<noteq> JStr playerId) pre
      \<and> read_prop player ''id'' = JStr playerId
      \<and> read_prop player ''linescores'' = JArr rs
      \<and> list_all round_ok rs"
  then have f: "fetchJSON up (ESPN_BASE @ ''/pga/events'') = Some data"
    and e: "get data ''events'' = Some (JArr (event # rest))"
    and t: "truthy event"
    and s: "fetchJSON up
              (ESPN_BASE @ ''/pga/scoreboard?event='' @ to_string (read_prop event ''id''))
            = Some scoreboard"
    and sc: "scoreboard_competitors scoreboard = Some (JArr (pre @ player # post))"
    and pre: "list_all (\<lambda>c. \<not> nullish c \<and> read_prop c ''id'' \<noteq> JStr playerId) pre"
    and pid: "read_prop player ''id'' = JStr playerId"
    and ls: "read_prop player ''linescores'' = JArr rs"
    and ok: "list_all round_ok rs"
    by simp_all
  have found: "find_js (id_matches playerId) (pre @ player # post) = Some player"
    using find_js_hit [OF pre pid] .
  have tp: "truthy player"
    using read_prop_string_truthy [OF pid] .
  obtain rounds where rounds: "map_js round_entry rs 0 = Some rounds"
    using map_js_total_all [where f = round_entry, OF ok round_entry_total] by blast
  have len: "length rounds = length rs"
    using map_js_length [OF rounds] .
  obtain name country where
    "player_scorecard up now playerId
       = map_option (\<lambda>rounds. JObj [(''tournament'', read_prop event ''name''),
                                     (''player'',
                                      JObj [(''id'', read_prop player ''id''),
                                            (''name'', name),
                                            (''country'', country),
                                            (''totalScore'', read_prop player ''score'')]),
                                     (''rounds'', JArr rounds),
                                     (''fetchedAt'', JStr now)])
           (map_js round_entry rs 0)"
    using player_scorecard_found [OF f e t s sc found tp ls] by blast
  then have "player_scorecard up now playerId
       = Some (JObj [(''tournament'', read_prop event ''name''),
                     (''player'',
                      JObj [(''id'', JStr playerId),
                            (''name'', name),
                            (''country'', country),
                            (''totalScore'', read_prop player ''score'')]),
                     (''rounds'', JArr rounds),
                     (''fetchedAt'', JStr now)])"
    using rounds pid by simp
  then show "\<exists>out rounds. player_scorecard up now playerId = Some out
           \<and> read_prop (read_prop out ''player'') ''id'' = JStr playerId
           \<and> read_prop out ''rounds'' = JArr rounds
           \<and> length rounds = length rs"
    using len by simp
next
  assume a: "fetchJSON up (ESPN_BASE @ ''/pga/events'') = Some data
      \<and> get data ''events'' = Some (JArr (event # rest))
      \<and> truthy event
      \<and> fetchJSON up (ESPN_BASE @ ''/pga/scoreboard?event='' @ to_string (read_prop event ''id''))
          = Some scoreboard
      \<and> scoreboard_competitors scoreboard = Some (JArr cs)
      \<and> list_all (\<lambda>c. \<not> nullish c \<and> read_prop c ''id'' \<noteq> JStr playerId) cs"
  then have f: "fetchJSON up (ESPN_BASE @ ''/pga/events'') = Some data"
    and e: "get data ''events'' = Some (JArr (event # rest))"
    and t: "truthy event"
    and s: "fetchJSON up
              (ESPN_BASE @ ''/pga/scoreboard?event='' @ to_string (read_prop event ''id''))
            = Some scoreboard"
    and sc: "scoreboard_competitors scoreboard = Some (JArr cs)"
    and no: "list_all (\<lambda>c. \<not> nullish c \<and> read_prop c ''id'' \<noteq> JStr playerId) cs"
    by simp_all
  have miss: "find_js (id_matches playerId) cs = Some JUndefined"
    using find_js_miss [OF no] .
  have nn: "list_all (\<lambda>c. \<not> nullish c) (take 10 cs)"
    using no by (auto simp add: list_all_iff dest: in_set_takeD)
  note u = player_scorecard_not_found [OF f e t s sc miss, of now]
  obtain hints where h: "player_scorecard up now playerId
        = Some (JObj [(''error'', JStr ''Player not found in current tournament''),
                      (''availablePlayers'', JArr hints)])"
    and len: "length hints = min 10 (length cs)"
    and rows: "\<forall>i<length hints. hint_entry (cs ! i) i = Some (hints ! i)"
    using mapped_take_total [OF u nn hint_entry_total] by blast
  have "hints ! i = JObj [(''id'', read_prop (cs ! i) ''id''),
                          (''name'', opt_get (read_prop (cs ! i) ''athlete'') ''displayName'')]"
    if i: "i < length hints" for i
  proof -
    have "cs ! i \<in> set cs" using i len by simp
    then have "\<not> nullish (cs ! i)" using no by (simp add: list_all_iff)
    then have "hint_entry (cs ! i) i
        = Some (JObj [(''id'', read_prop (cs ! i) ''id''),
                      (''name'', opt_get (read_prop (cs ! i) ''athlete'') ''displayName'')])"
      by (rule hint_entry_eq)
    moreover have "hint_entry (cs ! i) i = Some (hints ! i)" using rows i by blast
    ultimately show ?thesis by simp
  qed
  then show "\<exists>hints. player_scorecard up now playerId
                    = Some (JObj [(''error'', JStr ''Player not found in current tournament''),
                                  (''availablePlayers'', JArr hints)])
           \<and> length hints \<le> 10
           \<and> length hints = min 10 (length cs)
           \<and> (\<forall>i<length hints.
                  hints ! i = JObj [(''id'', read_prop (cs ! i) ''id''),
                                    (''name'',
                                     opt_get (read_prop (cs ! i) ''athlete'') ''displayName'')])"
    using h len by auto
qed

theorem player_scorecard_lookup_witness:
  "(\<exists>out rounds. player_scorecard demo_upstream demo_now ''569'' = Some out
       \<and> read_prop (read_prop out ''player'') ''id'' = JStr ''569''
       \<and> read_prop out ''rounds'' = JArr rounds
       \<and> length rounds = 2)
   \<and> (\<exists>hints. player_scorecard demo_upstream demo_now ''1''
                = Some (JObj [(''error'', JStr ''Player not found in current tournament''),
                              (''availablePlayers'', JArr hints)])
       \<and> length hints \<le> 10
       \<and> length hints = 3)"
proof -
  let ?d = "JObj [(''events'', JArr [demo_pga_event])]"
  have f: "fetchJSON demo_upstream (ESPN_BASE @ ''/pga/events'') = Some ?d"
    by code_simp
  have e: "get ?d ''events'' = Some (JArr (demo_pga_event # []))"
    by code_simp
  have t: "truthy demo_pga_event"
    by code_simp
  have s: "fetchJSON demo_upstream
       (ESPN_BASE @ ''/pga/scoreboard?event='' @ to_string (read_prop demo_pga_event ''id''))
     = Some demo_scoreboard"
    by code_simp
  have sc2: "scoreboard_competitors demo_scoreboard = Some (JArr ([] @ rose # [smith, doe]))"
    by code_simp
  have pre2: "list_all (\<lambda>c. \<not> nullish c \<and> read_prop c ''id'' \<noteq> JStr ''569'') []"
    by simp
  have id2: "read_prop rose ''id'' = JStr ''569''"
    by code_simp
  have "\<exists>rs. read_prop rose ''linescores'' = JArr rs \<and> length rs = 2 \<and> list_all round_ok rs"
    by (simp add: rose_def round_ok_def)
  then obtain rs where ls2: "read_prop rose ''linescores'' = JArr rs"
    and n2: "length rs = 2" and ok2: "list_all round_ok rs"
    by blast
  have sc3: "scoreboard_competitors demo_scoreboard = Some (JArr [rose, smith, doe])"
    by code_simp
  have no3: "list_all (\<lambda>c. \<not> nullish c \<and> read_prop c ''id'' \<noteq> JStr ''1'') [rose, smith, doe]"
    by code_simp
  note g = player_scorecard_lookup [where up = demo_upstream and now = demo_now]
  note g2 = g [where playerId = "''569''", THEN conjunct1, THEN mp,
      OF conjI [OF f conjI [OF e conjI [OF t conjI [OF s conjI [OF sc2 conjI [OF pre2
           conjI [OF id2 conjI [OF ls2 ok2]]]]]]]]]
  note g3 = g [where playerId = "''1''", THEN conjunct2, THEN mp,
      OF conjI [OF f conjI [OF e conjI [OF t conjI [OF s conjI [OF sc3 no3]]]]]]
  have a2: "\<exists>out rounds. player_scorecard demo_upstream demo_now ''569'' = Some out
       \<and> read_prop (read_prop out ''player'') ''id'' = JStr ''569''
       \<and> read_prop out ''rounds'' = JArr rounds
       \<and> length rounds = 2"
    using g2 n2 by simp
  have a3: "\<exists>hints. player_scorecard demo_upstream demo_now ''1''
                = Some (JObj [(''error'', JStr ''Player not found in current tournament''),
                              (''availablePlayers'', JArr hints)])
       \<and> length hints \<le> 10
       \<and> length hints = 3"
    using g3 by auto
  show ?thesis
    by (intro conjI a2 a3)
qed

end
